theory Spec2Isabelle
  imports Main
begin

section \<open>JavaScript values as the handlers see them\<close>

text \<open>
  The request body, the processor's verification response and the commerce backend's
  response are all values produced by a JSON parser, and the handlers read them with
  property access, optional chaining, truthiness tests and strict equality. A value is
  therefore a JSON tree, extended with \<open>undefined\<close> (what reading an absent property
  gives). Numbers are integers: every number the handlers compare is an amount in minor
  units, and \<open>JNum n\<close> is the number whose value is the integer \<open>n\<close>, for the
  integers that the language's numbers hold exactly (all those of magnitude up to
  \<open>2^53\<close>). Strings are byte strings. An object is the list of its properties in
  insertion order, with distinct names; a property is looked up by the first binding
  of its name.
\<close>

datatype json =
    JUndefined
  | JNull
  | JBool bool
  | JNum int
  | JStr string
  | JArr "json list"
  | JObj "(string \<times> json) list"

text \<open>
  What a \<open>throw\<close> carries. \<open>Error\<close> is \<open>new Error(msg)\<close> of the source,
  \<open>TypeError\<close> is raised by the language itself (reading a property of
  \<open>null\<close> or \<open>undefined\<close>, calling what is not a function, a bad argument to
  the crypto library), \<open>Rejected\<close> is the rejection of an awaited outbound call
  (network failure, a body that is not JSON, an SMTP failure). Each has a message,
  which is what the top-level \<open>catch\<close> reports. The wording of a
  \<open>TypeError\<close> is the engine's; the model fixes one wording.
\<close>

datatype exn = Error string | TypeError string | Rejected string

fun message :: "exn \<Rightarrow> string" where
  "message (Error m) = m"
| "message (TypeError m) = m"
| "message (Rejected m) = m"

definition bind_exn :: "exn + 'a \<Rightarrow> ('a \<Rightarrow> exn + 'b) \<Rightarrow> exn + 'b" where
  "bind_exn m f = (case m of Inl e \<Rightarrow> Inl e | Inr x \<Rightarrow> f x)"

fun nullish :: "json \<Rightarrow> bool" where
  "nullish JUndefined = True"
| "nullish JNull = True"
| "nullish _ = False"

text \<open>Truthiness, as \<open>!x\<close>, \<open>x || d\<close> and \<open>x ? a : b\<close> test it.\<close>

fun truthy :: "json \<Rightarrow> bool" where
  "truthy JUndefined = False"
| "truthy JNull = False"
| "truthy (JBool b) = b"
| "truthy (JNum n) = (n \<noteq> 0)"
| "truthy (JStr s) = (s \<noteq> [])"
| "truthy (JArr xs) = True"
| "truthy (JObj ps) = True"

text \<open>
  Strict equality \<open>a === b\<close>. Primitives are compared by type and value. Arrays and
  objects are compared by identity; the two operands of every comparison in the
  handlers come from different parses (or one is a string literal), so two arrays or
  two objects are never identical.
\<close>

fun strict_eq :: "json \<Rightarrow> json \<Rightarrow> bool" where
  "strict_eq JUndefined JUndefined = True"
| "strict_eq JNull JNull = True"
| "strict_eq (JBool a) (JBool b) = (a = b)"
| "strict_eq (JNum a) (JNum b) = (a = b)"
| "strict_eq (JStr a) (JStr b) = (a = b)"
| "strict_eq _ _ = False"

text \<open>
  Property access \<open>v.k\<close>. It throws on \<open>null\<close> and \<open>undefined\<close>, reads an own
  property of an object, and gives \<open>undefined\<close> on every other value: none of the
  names the handlers read is a built-in property of a number, string, boolean or array
  (\<open>find\<close> is a call, modelled by \<open>array_find\<close> below).
\<close>

fun get_prop :: "json \<Rightarrow> string \<Rightarrow> exn + json" where
  "get_prop JUndefined k =
     Inl (TypeError (''Cannot read properties of undefined (reading '' @ [CHR 0x27] @ k @ [CHR 0x27] @ '')''))"
| "get_prop JNull k =
     Inl (TypeError (''Cannot read properties of null (reading '' @ [CHR 0x27] @ k @ [CHR 0x27] @ '')''))"
| "get_prop (JObj ps) k = Inr (case map_of ps k of None \<Rightarrow> JUndefined | Some v \<Rightarrow> v)"
| "get_prop _ k = Inr JUndefined"

section \<open>Requests, responses and the outside world\<close>

text \<open>
  What the host runtime hands to a handler: the HTTP method, the value of the
  \<open>x-paystack-signature\<close> header (absent: \<open>None\<close>), and \<open>req.body\<close>, which
  the runtime has already parsed. \<open>req_raw\<close> is the byte string the runtime received
  and parsed \<open>req_body\<close> from; no handler reads it.
\<close>

record request =
  req_method :: string
  req_signature :: "string option"
  req_body :: json
  req_raw :: string

text \<open>\<open>res.status(n).json(v)\<close>.\<close>

record response =
  status :: nat
  payload :: json

definition respond :: "nat \<Rightarrow> json \<Rightarrow> response" where
  "respond n v = \<lparr>status = n, payload = v\<rparr>"

text \<open>
  The outbound calls, with the request-derived values they carry: the processor's
  verify-transaction call (reference), the HTTP email API call (reference and the
  values interpolated into the body), the two commerce mutations (customer email,
  reference and variant id; draft order id), and the two SMTP sends of the dual-email
  variant (reference; recipient).
\<close>

datatype call =
    VerifyTransaction json
  | ResendEmail json "json list"
  | DraftOrderCreate json json json
  | DraftOrderComplete json
  | SendMailAdmin json "json list"
  | SendMailCustomer json "json list"

text \<open>
  Everything a run depends on besides the request: the environment's signing secret,
  the keyed hash of the crypto library (HMAC-SHA512, hex digest; key first, message
  second), the text that the language's \<open>JSON.stringify\<close> gives for a value other
  than \<open>undefined\<close>, and how each outbound call ends. \<open>Inl\<close> is a rejected \<open>await\<close>;
  for the verification and draft-order calls \<open>Inr\<close> is the parsed JSON of the
  response, for the email API it is the response's \<open>ok\<close> flag.
\<close>

record world =
  PAYSTACK_SECRET_KEY :: "string option"
  hmac_sha512_hex :: "string \<Rightarrow> string \<Rightarrow> string"
  stringify :: "json \<Rightarrow> string"
  verify_result :: "exn + json"
  resend_result :: "exn + bool"
  draft_create_result :: "exn + json"
  draft_complete_result :: "exn + unit"
  admin_mail_result :: "exn + unit"
  customer_mail_result :: "exn + unit"

text \<open>
  The body of a \<open>try\<close> block: it ends in a value or a thrown exception, and leaves
  the list of outbound calls made, oldest first.
\<close>

type_synonym 'a io = "(exn + 'a) \<times> call list"

definition return_io :: "'a \<Rightarrow> 'a io" where
  "return_io x = (Inr x, [])"

definition throw_io :: "exn \<Rightarrow> 'a io" where
  "throw_io e = (Inl e, [])"

definition lift :: "exn + 'a \<Rightarrow> 'a io" where
  "lift r = (r, [])"

definition perform :: "call \<Rightarrow> exn + 'a \<Rightarrow> 'a io" where
  "perform c outcome = (outcome, [c])"

definition bind_io :: "'a io \<Rightarrow> ('a \<Rightarrow> 'b io) \<Rightarrow> 'b io" where
  "bind_io m f =
     (case m of
        (Inl e, t) \<Rightarrow> (Inl e, t)
      | (Inr x, t) \<Rightarrow> (case f x of (r, t') \<Rightarrow> (r, t @ t')))"

text \<open>An inner \<open>try { ... } catch (emailError) { console.error(...) }\<close>.\<close>

definition swallow :: "unit io \<Rightarrow> unit io" where
  "swallow m = (Inr (), snd m)"

text \<open>The top-level \<open>catch\<close>: status 500 with the error's message.\<close>

definition catch_all :: "response io \<Rightarrow> response \<times> call list" where
  "catch_all m =
     (case m of
        (Inl e, t) \<Rightarrow> (respond 500 (JObj [(''error'', JStr (message e))]), t)
      | (Inr r, t) \<Rightarrow> (r, t))"

section \<open>Shared steps\<close>

text \<open>
  Signature step of the three handlers of \<open>api/webhook.js\<close>:
  \<open>crypto.createHmac('sha512', secret).update(JSON.stringify(req.body)).digest('hex')\<close>.
  \<open>createHmac\<close> throws on an undefined key, \<open>update\<close> on an undefined message;
  \<open>JSON.stringify(undefined)\<close> is \<open>undefined\<close>, not a string.
\<close>

definition JSON_stringify :: "world \<Rightarrow> json \<Rightarrow> string option" where
  "JSON_stringify w v = (if v = JUndefined then None else Some (stringify w v))"

definition signed_text :: "world \<Rightarrow> request \<Rightarrow> string option" where
  "signed_text w req = JSON_stringify w (req_body req)"

definition compute_hash :: "world \<Rightarrow> request \<Rightarrow> exn + string" where
  "compute_hash w req =
     (case PAYSTACK_SECRET_KEY w of
        None \<Rightarrow> Inl (TypeError ''The key argument must be of type string'')
      | Some k \<Rightarrow>
          (case signed_text w req of
             None \<Rightarrow> Inl (TypeError ''The data argument must be of type string'')
           | Some s \<Rightarrow> Inr (hmac_sha512_hex w k s)))"

text \<open>\<open>const { reference, amount, customer, metadata, paid_at } = event.data\<close>.\<close>

record payment =
  reference :: json
  amount :: json
  customer :: json
  metadata :: json
  paid_at :: json

definition destructure :: "json \<Rightarrow> exn + payment" where
  "destructure d =
     bind_exn (get_prop d ''reference'') (\<lambda>r.
     bind_exn (get_prop d ''amount'') (\<lambda>a.
     bind_exn (get_prop d ''customer'') (\<lambda>c.
     bind_exn (get_prop d ''metadata'') (\<lambda>m.
     bind_exn (get_prop d ''paid_at'') (\<lambda>p.
       Inr \<lparr>reference = r, amount = a, customer = c, metadata = m, paid_at = p\<rparr>)))))"

text \<open>
  \<open>xs.find(f => f.variable_name === name)\<close> on the elements of an array: the first
  element whose \<open>variable_name\<close> is the string \<open>name\<close>, \<open>undefined\<close> when there
  is none. Reading \<open>variable_name\<close> of a \<open>null\<close> element throws; elements after
  the match are not visited.
\<close>

fun find_field :: "string \<Rightarrow> json list \<Rightarrow> exn + json" where
  "find_field name [] = Inr JUndefined"
| "find_field name (f # fs) =
     (case get_prop f ''variable_name'' of
        Inl e \<Rightarrow> Inl e
      | Inr v \<Rightarrow> if strict_eq v (JStr name) then Inr f else find_field name fs)"

text \<open>
  \<open>cf.find(...)\<close>: \<open>cf\<close> must be an array. On \<open>null\<close> and \<open>undefined\<close> reading
  \<open>find\<close> throws; on anything else that is not an array \<open>find\<close> is not a function.
\<close>

fun array_find :: "json \<Rightarrow> string \<Rightarrow> exn + json" where
  "array_find (JArr fs) name = find_field name fs"
| "array_find JUndefined name =
     Inl (TypeError (''Cannot read properties of undefined (reading '' @ [CHR 0x27] @ ''find'' @ [CHR 0x27] @ '')''))"
| "array_find JNull name =
     Inl (TypeError (''Cannot read properties of null (reading '' @ [CHR 0x27] @ ''find'' @ [CHR 0x27] @ '')''))"
| "array_find _ name = Inl (TypeError ''find is not a function'')"

text \<open>
  \<open>metadata.custom_fields?.find(f => f.variable_name === name)?.value\<close>: each
  \<open>?.\<close> short-circuits to \<open>undefined\<close> on \<open>null\<close> and \<open>undefined\<close>.
\<close>

definition field_value :: "json \<Rightarrow> string \<Rightarrow> exn + json" where
  "field_value md name =
     bind_exn (get_prop md ''custom_fields'') (\<lambda>cf.
       if nullish cf then Inr JUndefined
       else bind_exn (array_find cf name) (\<lambda>f.
         if nullish f then Inr JUndefined else get_prop f ''value''))"

text \<open>\<open>v || d\<close>.\<close>

definition or_else :: "json \<Rightarrow> json \<Rightarrow> json" where
  "or_else v d = (if truthy v then v else d)"

text \<open>\<open>metadata.custom_fields?.find(...)?.value || d\<close>.\<close>

definition field_or_default :: "json \<Rightarrow> string \<Rightarrow> json \<Rightarrow> exn + json" where
  "field_or_default md name d = bind_exn (field_value md name) (\<lambda>v. Inr (or_else v d))"

text \<open>
  The conversion of a value to text or to a number, as a template literal,
  \<open>parseFloat(v)\<close>, \<open>new Date(v)\<close> and \<open>v / 100\<close> perform it. A parsed value is
  never callable, so the conversion throws for an object that carries a property named
  \<open>toString\<close> of its own, and for an array with an element it throws for (an array
  is converted by joining its converted elements); it throws for nothing else.
  \<open>coerce_all\<close> is a run of conversions with no other throwing step in between.
\<close>

fun coercible :: "json \<Rightarrow> bool" where
  "coercible (JObj ps) = (map_of ps ''toString'' = None)"
| "coercible (JArr xs) = list_all coercible xs"
| "coercible v = True"

definition coerce_all :: "json list \<Rightarrow> exn + unit" where
  "coerce_all vs =
     (if list_all coercible vs then Inr ()
      else Inl (TypeError ''Cannot convert object to primitive value''))"

definition err :: "string \<Rightarrow> json" where
  "err m = JObj [(''error'', JStr m)]"

definition received :: response where
  "received = respond 200 (JObj [(''received'', JBool True)])"

section \<open>The handlers\<close>

text \<open>
  The repository holds four handlers, each the whole of one version of the endpoint.
  Each is given as the source has it, top to bottom, in blocks: the block that runs on
  a \<open>charge.success\<close> event once every check has passed, the re-verification in
  front of it, and the \<open>try\<close> body around both. In all of them the formatting of
  amounts and dates and the markup of the messages are left out. What those steps can
  throw is kept, in source order: the reading of \<open>customer.email\<close> and
  \<open>customer.customer_code\<close> of an absent customer, and the conversion of a value to
  text or to a number.
\<close>

subsection \<open>Notification without checks (the file without a signature step)\<close>

text \<open>
  Lines 14 to 82: the two lookups, the conversions (the amount at line 24, the reference
  at line 30, the rest in the message of lines 31 to 57, in that order), the send, the
  answer.
\<close>

definition unsigned_charge :: "world \<Rightarrow> payment \<Rightarrow> response io" where
  "unsigned_charge w p =
     bind_io (lift (field_or_default (metadata p) ''product_title'' (JStr ''Unknown Product''))) (\<lambda>productTitle.
     bind_io (lift (field_or_default (metadata p) ''variant_id'' (JStr ''N/A''))) (\<lambda>variantId.
     bind_io (lift (coerce_all [amount p, reference p, paid_at p])) (\<lambda>u.
     bind_io (lift (get_prop (customer p) ''email'')) (\<lambda>email.
     bind_io (lift (coerce_all [email])) (\<lambda>u.
     bind_io (lift (get_prop (customer p) ''customer_code'')) (\<lambda>code.
     bind_io (lift (coerce_all [code, productTitle, variantId])) (\<lambda>u.
     bind_io (perform (ResendEmail (reference p) [email, code, productTitle, variantId])
                (resend_result w)) (\<lambda>ok.
     if \<not> ok then throw_io (Error ''Failed to send email'')
     else return_io (respond 200 (JObj
            [(''success'', JBool True), (''reference'', reference p),
             (''message'', JStr ''Email notification sent'')]))))))))))"

definition unsigned_try :: "world \<Rightarrow> request \<Rightarrow> response io" where
  "unsigned_try w req =
     bind_io (lift (get_prop (req_body req) ''event'')) (\<lambda>ev.
     if strict_eq ev (JStr ''charge.success'') then
       bind_io (lift (bind_exn (get_prop (req_body req) ''data'') destructure)) (\<lambda>p.
         unsigned_charge w p)
     else return_io received)"

definition handler_unsigned :: "world \<Rightarrow> request \<Rightarrow> response \<times> call list" where
  "handler_unsigned w req =
     (if req_method req \<noteq> ''POST'' then (respond 405 (err ''Method not allowed''), [])
      else catch_all (unsigned_try w req))"

subsection \<open>Verified notification (first handler of api/webhook.js)\<close>

text \<open>
  \<open>!verifyData.status || verifyData.data.status !== 'success'\<close>: the right operand
  is evaluated only when \<open>verifyData.status\<close> is truthy.
\<close>

definition not_verified :: "json \<Rightarrow> exn + bool" where
  "not_verified verifyData =
     bind_exn (get_prop verifyData ''status'') (\<lambda>ok.
       if \<not> truthy ok then Inr True
       else bind_exn (get_prop verifyData ''data'') (\<lambda>d.
            bind_exn (get_prop d ''status'') (\<lambda>st.
              Inr (\<not> strict_eq st (JStr ''success'')))))"

text \<open>\<open>verifyData.data.amount !== amount\<close>.\<close>

definition amount_mismatch :: "json \<Rightarrow> json \<Rightarrow> exn + bool" where
  "amount_mismatch verifyData claimed =
     bind_exn (get_prop verifyData ''data'') (\<lambda>d.
     bind_exn (get_prop d ''amount'') (\<lambda>a.
       Inr (\<not> strict_eq a claimed)))"

text \<open>
  Lines 27 to 49, and again 380 to 402 in the two-email handler: the address of the
  call, which holds the reference as text, the call to the processor and the two
  checks of its answer; \<open>continue\<close> is what follows them.
\<close>

definition reverify :: "world \<Rightarrow> payment \<Rightarrow> response io \<Rightarrow> response io" where
  "reverify w p continue =
     bind_io (lift (coerce_all [reference p])) (\<lambda>u.
     bind_io (perform (VerifyTransaction (reference p)) (verify_result w)) (\<lambda>verifyData.
     bind_io (lift (not_verified verifyData)) (\<lambda>bad.
     if bad then return_io (respond 400 (err ''Payment not verified''))
     else
     bind_io (lift (amount_mismatch verifyData (amount p))) (\<lambda>differs.
     if differs then return_io (respond 400 (err ''Amount mismatch''))
     else continue))))"

text \<open>The seven lookups of the verified notification, in source order.\<close>

definition notify_fields :: "json \<Rightarrow> exn + json list" where
  "notify_fields md =
     bind_exn (field_or_default md ''product_title'' (JStr ''Unknown Product'')) (\<lambda>productTitle.
     bind_exn (field_or_default md ''variant_id'' (JStr ''N/A'')) (\<lambda>variantId.
     bind_exn (field_or_default md ''customer_name'' (JStr ''N/A'')) (\<lambda>customerName.
     bind_exn (field_or_default md ''phone'' (JStr ''N/A'')) (\<lambda>phone.
     bind_exn (field_or_default md ''shipping_zone'' (JStr ''N/A'')) (\<lambda>shippingZone.
     bind_exn (field_or_default md ''address'' (JStr ''N/A'')) (\<lambda>address.
     bind_exn (field_or_default md ''shipping_fee'' (JStr ''0'')) (\<lambda>shippingFee.
       Inr [productTitle, variantId, customerName, phone, shippingZone, address,
            shippingFee])))))))"

text \<open>
  Lines 51 to 207: the lookups, the conversions, the send, the answer. The amount
  (line 81), the shipping fee (line 86), the reference, the date and the customer name
  are converted before \<open>customer.email\<close> is read (line 125), the other values after
  it. \<open>fields ! i\<close> is the lookup number \<open>i\<close> of \<open>notify_fields\<close>, counted
  from 0.
\<close>

definition notify_charge :: "world \<Rightarrow> payment \<Rightarrow> response io" where
  "notify_charge w p =
     bind_io (lift (notify_fields (metadata p))) (\<lambda>fields.
     bind_io (lift (coerce_all [amount p, fields ! 6, reference p, paid_at p, fields ! 2])) (\<lambda>u.
     bind_io (lift (get_prop (customer p) ''email'')) (\<lambda>email.
     bind_io (lift (coerce_all [email, fields ! 3, fields ! 4, fields ! 5, fields ! 0,
                                fields ! 1])) (\<lambda>u.
     bind_io (perform (ResendEmail (reference p) (email # fields)) (resend_result w)) (\<lambda>ok.
     if \<not> ok then throw_io (Error ''Failed to send email'')
     else return_io (respond 200 (JObj
            [(''success'', JBool True), (''reference'', reference p),
             (''verified'', JBool True),
             (''message'', JStr ''Payment verified and email notification sent'')])))))))"

definition verified_try :: "world \<Rightarrow> request \<Rightarrow> response io" where
  "verified_try w req =
     bind_io (lift (compute_hash w req)) (\<lambda>hash.
     if Some hash \<noteq> req_signature req then return_io (respond 401 (err ''Invalid signature''))
     else
     bind_io (lift (get_prop (req_body req) ''event'')) (\<lambda>ev.
     if strict_eq ev (JStr ''charge.success'') then
       bind_io (lift (bind_exn (get_prop (req_body req) ''data'') destructure)) (\<lambda>p.
         reverify w p (notify_charge w p))
     else return_io received))"

definition handler_verified :: "world \<Rightarrow> request \<Rightarrow> response \<times> call list" where
  "handler_verified w req =
     (if req_method req \<noteq> ''POST'' then (respond 405 (err ''Method not allowed''), [])
      else catch_all (verified_try w req))"

subsection \<open>Order creation (second handler of api/webhook.js)\<close>

text \<open>
  \<open>metadata.custom_fields.find(...)\<close> without optional chaining, then
  \<open>variantIdField ? variantIdField.value : null\<close> and the throw on a falsy
  variant id.
\<close>

definition variant_id_of :: "json \<Rightarrow> exn + json" where
  "variant_id_of md =
     bind_exn (get_prop md ''custom_fields'') (\<lambda>cf.
     bind_exn (array_find cf ''variant_id'') (\<lambda>variantIdField.
     bind_exn (if truthy variantIdField then get_prop variantIdField ''value'' else Inr JNull)
       (\<lambda>variantId.
         if \<not> truthy variantId then Inl (Error ''Variant ID not found in metadata'')
         else Inr variantId)))"

text \<open>
  After the draft-order call: the throw on a truthy \<open>errors\<close>, then
  \<open>shopifyData.data.draftOrderCreate.draftOrder.id\<close>.
\<close>

definition draft_order_id :: "world \<Rightarrow> json \<Rightarrow> exn + json" where
  "draft_order_id w shopifyData =
     bind_exn (get_prop shopifyData ''errors'') (\<lambda>errors.
       if truthy errors
       then Inl (Error (''Shopify API error: '' @
              (case JSON_stringify w errors of Some s \<Rightarrow> s | None \<Rightarrow> ''undefined'')))
       else
         bind_exn (get_prop shopifyData ''data'') (\<lambda>d.
         bind_exn (get_prop d ''draftOrderCreate'') (\<lambda>c.
         bind_exn (get_prop c ''draftOrder'') (\<lambda>dr.
           get_prop dr ''id''))))"

text \<open>
  Lines 255 to 342: the variant id, the text of the first mutation (customer email,
  reference and variant id as text), the draft-order call, the draft order id and the
  text of the second mutation, the completion call, the answer.
\<close>

definition order_charge :: "world \<Rightarrow> payment \<Rightarrow> response io" where
  "order_charge w p =
     bind_io (lift (variant_id_of (metadata p))) (\<lambda>variantId.
     bind_io (lift (get_prop (customer p) ''email'')) (\<lambda>email.
     bind_io (lift (coerce_all [email, reference p, variantId])) (\<lambda>u.
     bind_io (perform (DraftOrderCreate email (reference p) variantId)
                (draft_create_result w)) (\<lambda>shopifyData.
     bind_io (lift (draft_order_id w shopifyData)) (\<lambda>draftOrderId.
     bind_io (lift (coerce_all [draftOrderId])) (\<lambda>u.
     bind_io (perform (DraftOrderComplete draftOrderId) (draft_complete_result w)) (\<lambda>done.
       return_io (respond 200 (JObj
         [(''success'', JBool True), (''reference'', reference p),
          (''message'', JStr ''Order created successfully'')])))))))))"

definition order_try :: "world \<Rightarrow> request \<Rightarrow> response io" where
  "order_try w req =
     bind_io (lift (compute_hash w req)) (\<lambda>hash.
     if Some hash \<noteq> req_signature req then return_io (respond 400 (err ''Invalid signature''))
     else
     bind_io (lift (get_prop (req_body req) ''event'')) (\<lambda>ev.
     if strict_eq ev (JStr ''charge.success'') then
       bind_io (lift (bind_exn (get_prop (req_body req) ''data'') destructure)) (\<lambda>p.
       bind_io (lift (coerce_all [reference p])) (\<lambda>u.
       bind_io (perform (VerifyTransaction (reference p)) (verify_result w)) (\<lambda>verification.
       bind_io (lift (bind_exn (get_prop verification ''data'') (\<lambda>d. get_prop d ''status''))) (\<lambda>st.
       if strict_eq st (JStr ''success'') then order_charge w p
       else return_io received))))
     else return_io received))"

definition handler_order :: "world \<Rightarrow> request \<Rightarrow> response \<times> call list" where
  "handler_order w req =
     (if req_method req \<noteq> ''POST'' then (respond 405 (err ''Method not allowed''), [])
      else catch_all (order_try w req))"

subsection \<open>Two emails (third handler of api/webhook.js)\<close>

text \<open>
  The lookups of the two-email handler: as \<open>notify_fields\<close>, but the shipping
  zone falls back to the field \<open>state\<close> before its default.
\<close>

definition dual_fields :: "json \<Rightarrow> exn + json list" where
  "dual_fields md =
     bind_exn (field_or_default md ''product_title'' (JStr ''Unknown Product'')) (\<lambda>productTitle.
     bind_exn (field_or_default md ''variant_id'' (JStr ''N/A'')) (\<lambda>variantId.
     bind_exn (field_or_default md ''customer_name'' (JStr ''N/A'')) (\<lambda>customerName.
     bind_exn (field_or_default md ''phone'' (JStr ''N/A'')) (\<lambda>phone.
     bind_exn (bind_exn (field_value md ''shipping_zone'') (\<lambda>z.
                 if truthy z then Inr z
                 else field_or_default md ''state'' (JStr ''N/A''))) (\<lambda>shippingZone.
     bind_exn (field_or_default md ''address'' (JStr ''N/A'')) (\<lambda>address.
     bind_exn (field_or_default md ''shipping_fee'' (JStr ''0'')) (\<lambda>shippingFee.
       Inr [productTitle, variantId, customerName, phone, shippingZone, address,
            shippingFee])))))))"

text \<open>
  Lines 404 to 699: the lookups, the conversions of the admin message placed around the
  reading of \<open>customer.email\<close> as in the verified notification, the admin send, the
  conversions of the customer message, the customer send, the answer. Each send sits in
  a \<open>try\<close> of its own. \<open>fields ! i\<close> is the lookup number \<open>i\<close> of
  \<open>dual_fields\<close>, counted from 0.
\<close>

definition dual_charge :: "world \<Rightarrow> payment \<Rightarrow> response io" where
  "dual_charge w p =
     bind_io (lift (dual_fields (metadata p))) (\<lambda>fields.
     bind_io (lift (coerce_all [amount p, fields ! 6, reference p, paid_at p, fields ! 2])) (\<lambda>u.
     bind_io (lift (get_prop (customer p) ''email'')) (\<lambda>email.
     bind_io (lift (coerce_all [email, fields ! 3, fields ! 4, fields ! 5, fields ! 0,
                                fields ! 1])) (\<lambda>u.
     bind_io (swallow (perform (SendMailAdmin (reference p) (email # fields))
                (admin_mail_result w))) (\<lambda>sent1.
     bind_io (lift (coerce_all [reference p, fields ! 2, paid_at p, fields ! 0, fields ! 4,
                                fields ! 5, fields ! 3])) (\<lambda>u.
     bind_io (swallow (bind_io (lift (get_prop (customer p) ''email'')) (\<lambda>to.
                perform (SendMailCustomer to fields) (customer_mail_result w)))) (\<lambda>sent2.
       return_io (respond 200 (JObj
         [(''success'', JBool True), (''reference'', reference p),
          (''verified'', JBool True),
          (''message'', JStr ''Payment verified, admin notification and customer order summary sent'')])))))))))"

definition dual_try :: "world \<Rightarrow> request \<Rightarrow> response io" where
  "dual_try w req =
     bind_io (lift (compute_hash w req)) (\<lambda>hash.
     if Some hash \<noteq> req_signature req then return_io (respond 401 (err ''Invalid signature''))
     else
     bind_io (lift (get_prop (req_body req) ''event'')) (\<lambda>ev.
     if strict_eq ev (JStr ''charge.success'') then
       bind_io (lift (bind_exn (get_prop (req_body req) ''data'') destructure)) (\<lambda>p.
         reverify w p (dual_charge w p))
     else return_io received))"

definition handler_dual :: "world \<Rightarrow> request \<Rightarrow> response \<times> call list" where
  "handler_dual w req =
     (if req_method req \<noteq> ''POST'' then (respond 405 (err ''Method not allowed''), [])
      else catch_all (dual_try w req))"

section \<open>Vocabulary of the properties\<close>

text \<open>Reading a property where nothing is thrown: \<open>undefined\<close> for whatever cannot be read.\<close>

definition read :: "json \<Rightarrow> string \<Rightarrow> json" where
  "read v k = (case get_prop v k of Inl e \<Rightarrow> JUndefined | Inr x \<Rightarrow> x)"

text \<open>
  The lookup as the specification words it: the entries named \<open>name\<close> are those whose
  \<open>variable_name\<close> is exactly that string, and the answer is the \<open>value\<close> of the
  first of them.
\<close>

definition has_name :: "string \<Rightarrow> json \<Rightarrow> bool" where
  "has_name name f = (read f ''variable_name'' = JStr name)"

definition first_match :: "string \<Rightarrow> json list \<Rightarrow> json option" where
  "first_match name fs = map_option (\<lambda>f. read f ''value'') (List.find (has_name name) fs)"

fun entries :: "json \<Rightarrow> json list" where
  "entries (JArr fs) = fs"
| "entries _ = []"

text \<open>The variant id an event carries: the first \<open>variant_id\<close> entry's value, if truthy.\<close>

definition event_variant_id :: "json \<Rightarrow> json option" where
  "event_variant_id body =
     (case first_match ''variant_id''
             (entries (read (read (read body ''data'') ''metadata'') ''custom_fields'')) of
        None \<Rightarrow> None
      | Some v \<Rightarrow> if truthy v then Some v else None)"

fun is_order_call :: "call \<Rightarrow> bool" where
  "is_order_call (DraftOrderCreate e r v) = True"
| "is_order_call (DraftOrderComplete i) = True"
| "is_order_call _ = False"

text \<open>
  The draft-order call has failed when its \<open>await\<close> was rejected, when the response
  carries \<open>errors\<close>, or when it carries no draft order.
\<close>

fun create_failed :: "exn + json \<Rightarrow> bool" where
  "create_failed (Inl e) = True"
| "create_failed (Inr v) =
     (truthy (read v ''errors'') \<or>
      nullish (read (read (read v ''data'') ''draftOrderCreate'') ''draftOrder''))"

section \<open>Sample data\<close>

subsection \<open>A serialiser\<close>

text \<open>
  The serialiser of the sample world. It writes what \<open>JSON.stringify\<close> writes for
  the values of the examples: objects whose names are not array indices, and small
  integers.
\<close>


function decimal :: "nat \<Rightarrow> string" where
  "decimal n = (if n < 10 then [''0123456789'' ! n]
                else decimal (n div 10) @ [''0123456789'' ! (n mod 10)])"
  by pat_completeness auto
termination
  by (relation "measure id") auto

definition number_text :: "int \<Rightarrow> string" where
  "number_text i = (if i < 0 then CHR ''-'' # decimal (nat (- i)) else decimal (nat i))"

definition hex_digit :: "nat \<Rightarrow> char" where
  "hex_digit n = ''0123456789abcdef'' ! (n mod 16)"

text \<open>The escapes of a string literal in the output: quote, backslash, control characters.\<close>

definition escape_char :: "char \<Rightarrow> string" where
  "escape_char c =
     (if c = CHR 0x22 then [CHR 0x5C, CHR 0x22]
      else if c = CHR 0x5C then [CHR 0x5C, CHR 0x5C]
      else if c = CHR 0x08 then [CHR 0x5C, CHR ''b'']
      else if c = CHR 0x09 then [CHR 0x5C, CHR ''t'']
      else if c = CHR 0x0A then [CHR 0x5C, CHR ''n'']
      else if c = CHR 0x0C then [CHR 0x5C, CHR ''f'']
      else if c = CHR 0x0D then [CHR 0x5C, CHR ''r'']
      else if (of_char c :: nat) < 32
        then [CHR 0x5C, CHR ''u'', CHR ''0'', CHR ''0'',
              hex_digit (of_char c div 16), hex_digit (of_char c)]
      else [c])"

definition quote :: "string \<Rightarrow> string" where
  "quote s = [CHR 0x22] @ concat (map escape_char s) @ [CHR 0x22]"

fun join_comma :: "string list \<Rightarrow> string" where
  "join_comma [] = []"
| "join_comma [x] = x"
| "join_comma (x # y # ys) = x @ '','' @ join_comma (y # ys)"

text \<open>
  \<open>stringify_value\<close> is the text of a value inside an array or as the value of a
  property; \<open>undefined\<close> is written \<open>null\<close> inside an array and its property is
  left out of an object.
\<close>

fun stringify_value :: "json \<Rightarrow> string"
  and stringify_elems :: "json list \<Rightarrow> string list"
  and stringify_props :: "(string \<times> json) list \<Rightarrow> string list" where
  "stringify_value JUndefined = ''null''"
| "stringify_value JNull = ''null''"
| "stringify_value (JBool b) = (if b then ''true'' else ''false'')"
| "stringify_value (JNum n) = number_text n"
| "stringify_value (JStr s) = quote s"
| "stringify_value (JArr xs) = ''['' @ join_comma (stringify_elems xs) @ '']''"
| "stringify_value (JObj ps) = ''{'' @ join_comma (stringify_props ps) @ ''}''"
| "stringify_elems [] = []"
| "stringify_elems (x # xs) = stringify_value x # stringify_elems xs"
| "stringify_props [] = []"
| "stringify_props ((k, v) # ps) =
     (if v = JUndefined then stringify_props ps
      else (quote k @ '':'' @ stringify_value v) # stringify_props ps)"

subsection \<open>A world and requests\<close>

text \<open>
  A concrete world and concrete requests for the examples. The keyed hash of the sample
  world joins key and message with a colon; no property below depends on which
  function it is. \<open>signed b\<close> is a POST request with body \<open>b\<close> that carries the
  signature the sample world expects. \<open>charge_event\<close> is a \<open>charge.success\<close>
  event of 500000 minor units with the given metadata fields, and the sample processor
  confirms that amount.
\<close>

definition example_hmac :: "string \<Rightarrow> string \<Rightarrow> string" where
  "example_hmac k m = k @ '':'' @ m"

definition verification :: "string \<Rightarrow> int \<Rightarrow> json" where
  "verification st n =
     JObj [(''status'', JBool True),
           (''data'', JObj [(''status'', JStr st), (''amount'', JNum n)])]"

definition sample_world :: world where
  "sample_world =
     \<lparr>PAYSTACK_SECRET_KEY = Some ''sk'', hmac_sha512_hex = example_hmac,
      stringify = stringify_value,
      verify_result = Inr (verification ''success'' 500000),
      resend_result = Inr True,
      draft_create_result = Inr (JObj [(''data'', JObj [(''draftOrderCreate'',
         JObj [(''draftOrder'', JObj [(''id'', JStr ''gid://shopify/DraftOrder/1'')])])])]),
      draft_complete_result = Inr (),
      admin_mail_result = Inr (),
      customer_mail_result = Inr ()\<rparr>"

definition charge_event :: "json list \<Rightarrow> json" where
  "charge_event cfs =
     JObj [(''event'', JStr ''charge.success''),
           (''data'', JObj
              [(''reference'', JStr ''ref_1''), (''amount'', JNum 500000),
               (''customer'', JObj [(''email'', JStr ''buyer@example.com'')]),
               (''metadata'', JObj [(''custom_fields'', JArr cfs)])])]"

definition field :: "string \<Rightarrow> string \<Rightarrow> json" where
  "field n v = JObj [(''variable_name'', JStr n), (''value'', JStr v)]"

definition signed :: "json \<Rightarrow> request" where
  "signed b =
     \<lparr>req_method = ''POST'',
      req_signature = Some (example_hmac ''sk'' (stringify_value b)),
      req_body = b, req_raw = stringify_value b\<rparr>"

text \<open>
  A request as the runtime would build it from the raw text of the object with the one
  property \<open>event\<close>, written with a space after the colon; its signature header is
  the keyed hash of that raw text.
\<close>

definition spaced_raw :: string where
  "spaced_raw = ''{'' @ quote ''event'' @ '': '' @ quote ''ping'' @ ''}''"

definition spaced_request :: request where
  "spaced_request =
     \<lparr>req_method = ''POST'', req_signature = Some (example_hmac ''sk'' spaced_raw),
      req_body = JObj [(''event'', JStr ''ping'')], req_raw = spaced_raw\<rparr>"

text \<open>The body of a \<open>try\<close> block answers, if it answers, with a status in \<open>S\<close>.\<close>

definition io_status_in :: "nat set \<Rightarrow> response io \<Rightarrow> bool" where
  "io_status_in S m = (case fst m of Inl e \<Rightarrow> True | Inr r \<Rightarrow> status r \<in> S)"

section \<open>Basic facts\<close>

declare decimal.simps [simp del]

lemma bind_exn_simps [simp]:
  "bind_exn (Inl e) f = Inl e" "bind_exn (Inr x) f = f x"
  by (simp_all add: bind_exn_def)

lemma bind_io_simps [simp]:
  "bind_io (lift (Inl e)) f = (Inl e, [])"
  "bind_io (lift (Inr x)) f = f x"
  "bind_io (return_io x) f = f x"
  "bind_io (throw_io e) f = (Inl e, [])"
  "bind_io (perform c (Inl e)) f = (Inl e, [c])"
  "bind_io (perform c (Inr x)) f = (fst (f x), c # snd (f x))"
  by (simp_all add: bind_io_def lift_def return_io_def throw_io_def perform_def split: prod.splits)

lemma bind_io_pair [simp]:
  "bind_io (Inl e, t) f = (Inl e, t)"
  "bind_io (Inr x, t) f = (fst (f x), t @ snd (f x))"
  by (simp_all add: bind_io_def split: prod.splits)

lemma fst_bind_io: "fst (bind_io m f) = (case fst m of Inl e \<Rightarrow> Inl e | Inr x \<Rightarrow> fst (f x))"
  by (simp add: bind_io_def split: prod.splits sum.splits)

lemma snd_bind_io: "snd (bind_io m f) = snd m @ (case fst m of Inl e \<Rightarrow> [] | Inr x \<Rightarrow> snd (f x))"
  by (simp add: bind_io_def split: prod.splits sum.splits)

lemma io_parts [simp]:
  "fst (lift r) = r" "snd (lift r) = []"
  "fst (return_io x) = Inr x" "snd (return_io x) = []"
  "fst (throw_io e) = Inl e" "snd (throw_io e) = []"
  "fst (perform c r) = r" "snd (perform c r) = [c]"
  "fst (swallow m) = Inr ()" "snd (swallow m) = snd m"
  by (simp_all add: lift_def return_io_def throw_io_def perform_def swallow_def)

lemma catch_all_parts:
  "snd (catch_all m) = snd m"
  "fst (catch_all m) = (case fst m of Inl e \<Rightarrow> respond 500 (err (message e)) | Inr r \<Rightarrow> r)"
  by (simp_all add: catch_all_def err_def split: prod.splits sum.splits)


lemma swallow_perform [simp]: "swallow (perform c r) = (Inr (), [c])"
  by (simp add: swallow_def perform_def)

lemma swallow_lift_perform [simp]:
  "swallow (bind_io (lift x) (\<lambda>y. perform (c y) r)) =
     (Inr (), case x of Inl e \<Rightarrow> [] | Inr y \<Rightarrow> [c y])"
  by (cases x) (simp_all add: swallow_def)

lemma strict_eq_JStr [simp]: "strict_eq v (JStr s) = (v = JStr s)"
  by (cases v) auto

lemma strict_eq_JNum [simp]: "strict_eq (JNum n) v = (v = JNum n)"
  by (cases v) auto

lemma read_get_prop: "get_prop v k = Inr x \<Longrightarrow> read v k = x"
  by (simp add: read_def)

lemma read_nullish: "nullish v \<Longrightarrow> read v k = JUndefined"
  by (cases v) (simp_all add: read_def)

lemma get_prop_read: "\<not> nullish v \<Longrightarrow> get_prop v k = Inr (read v k)"
  by (cases v) (simp_all add: read_def)

lemma get_prop_Inr_iff: "(\<exists>x. get_prop v k = Inr x) = (\<not> nullish v)"
  by (cases v) simp_all

subsection \<open>Lookups\<close>

lemma find_field_total:
  "\<forall>f\<in>set fs. \<not> nullish f \<Longrightarrow>
   find_field name fs = Inr (case List.find (has_name name) fs of None \<Rightarrow> JUndefined | Some f \<Rightarrow> f)"
  by (induction fs) (auto simp add: get_prop_read has_name_def)

lemma find_Some_not_nullish:
  "\<forall>f\<in>set fs. \<not> nullish f \<Longrightarrow> List.find P fs = Some f \<Longrightarrow> \<not> nullish f"
  by (auto simp add: find_Some_iff)

lemma find_field_sound:
  "find_field name fs = Inr f \<Longrightarrow> truthy f \<Longrightarrow> List.find (has_name name) fs = Some f"
proof (induction fs)
  case Nil
  then show ?case by simp
next
  case (Cons g gs)
  then show ?case
    by (cases "get_prop g ''variable_name''") (auto simp add: has_name_def read_get_prop split: if_splits)
qed

lemma absent_fields_defaults:
  assumes "get_prop md ''custom_fields'' = Inr cf" and "nullish cf"
  shows "notify_fields md = Inr [JStr ''Unknown Product'', JStr ''N/A'', JStr ''N/A'', JStr ''N/A'',
            JStr ''N/A'', JStr ''N/A'', JStr ''0'']"
   and "dual_fields md = Inr [JStr ''Unknown Product'', JStr ''N/A'', JStr ''N/A'', JStr ''N/A'',
            JStr ''N/A'', JStr ''N/A'', JStr ''0'']"
  using assms
  by (simp_all add: notify_fields_def dual_fields_def field_or_default_def field_value_def or_else_def)

lemma variant_id_of_sound:
  assumes "variant_id_of md = Inr v"
  shows "first_match ''variant_id'' (entries (read md ''custom_fields'')) = Some v \<and> truthy v"
proof -
  from assms obtain cf where cf: "get_prop md ''custom_fields'' = Inr cf"
    by (cases "get_prop md ''custom_fields''") (simp_all add: variant_id_of_def)
  with assms obtain f where f: "array_find cf ''variant_id'' = Inr f"
    by (cases "array_find cf ''variant_id''") (simp_all add: variant_id_of_def)
  have tf: "truthy f"
    using assms cf f by (auto simp add: variant_id_of_def split: if_splits)
  from f obtain fs where fs: "cf = JArr fs" "find_field ''variant_id'' fs = Inr f"
    by (cases cf) simp_all
  from fs(2) tf have found: "List.find (has_name ''variant_id'') fs = Some f"
    by (rule find_field_sound)
  from assms cf f tf have "get_prop f ''value'' = Inr v \<and> truthy v"
    by (cases "get_prop f ''value''") (auto simp add: variant_id_of_def split: if_splits)
  with found cf fs show ?thesis
    by (simp add: first_match_def read_get_prop)
qed

lemma destructure_Inr:
  assumes "destructure d = Inr p"
  shows "\<not> nullish d \<and>
         p = \<lparr>reference = read d ''reference'', amount = read d ''amount'',
              customer = read d ''customer'', metadata = read d ''metadata'',
              paid_at = read d ''paid_at''\<rparr>"
proof (cases "nullish d")
  case True
  with assms show ?thesis by (cases d) (simp_all add: destructure_def)
next
  case False
  with assms show ?thesis by (auto simp add: destructure_def get_prop_read)
qed

lemma payment_of_body:
  assumes "bind_exn (get_prop body ''data'') destructure = Inr p"
  shows "p = \<lparr>reference = read (read body ''data'') ''reference'',
              amount = read (read body ''data'') ''amount'',
              customer = read (read body ''data'') ''customer'',
              metadata = read (read body ''data'') ''metadata'',
              paid_at = read (read body ''data'') ''paid_at''\<rparr>"
  using assms by (cases "get_prop body ''data''") (auto simp add: read_get_prop dest: destructure_Inr)

lemma draft_order_id_Inr:
  assumes "draft_order_id w sd = Inr i"
  shows "\<not> create_failed (Inr sd)"
proof -
  from assms obtain es where es: "get_prop sd ''errors'' = Inr es" "\<not> truthy es"
    by (cases "get_prop sd ''errors''") (auto simp add: draft_order_id_def split: if_splits)
  with assms obtain d where d: "get_prop sd ''data'' = Inr d"
    by (cases "get_prop sd ''data''") (auto simp add: draft_order_id_def)
  with assms es obtain c where c: "get_prop d ''draftOrderCreate'' = Inr c"
    by (cases "get_prop d ''draftOrderCreate''") (auto simp add: draft_order_id_def)
  with assms es d obtain dr where dr: "get_prop c ''draftOrder'' = Inr dr"
    by (cases "get_prop c ''draftOrder''") (auto simp add: draft_order_id_def)
  with assms es d c have "get_prop dr ''id'' = Inr i"
    by (simp add: draft_order_id_def)
  then have "\<not> nullish dr" using get_prop_Inr_iff by blast
  with es d c dr show ?thesis by (simp add: read_get_prop)
qed

subsection \<open>Shape of a run\<close>

text \<open>
  Each block of a handler ends in one of a few ways; the facts below list them, with
  the calls made in each.
\<close>

lemma gate_cases:
  assumes T: "T = bind_io (lift (compute_hash w req)) (\<lambda>hash.
             if Some hash \<noteq> req_signature req then return_io R
             else bind_io (lift (get_prop (req_body req) ''event'')) (\<lambda>ev.
               if strict_eq ev (JStr ''charge.success'')
               then bind_io (lift (bind_exn (get_prop (req_body req) ''data'') destructure)) K
               else return_io received))"
  obtains (threw) e where "T = (Inl e, [])"
  | (rejected) "T = (Inr R, [])"
  | (ignored) "T = (Inr received, [])"
  | (charge) h p where "compute_hash w req = Inr h" and "req_signature req = Some h"
      and "get_prop (req_body req) ''event'' = Inr (JStr ''charge.success'')"
      and "bind_exn (get_prop (req_body req) ''data'') destructure = Inr p"
      and "T = K p"
proof (cases "compute_hash w req")
  case (Inl e)
  with T threw show ?thesis by simp
next
  case hash: (Inr h)
  show ?thesis
  proof (cases "req_signature req = Some h")
    case False
    with T hash rejected show ?thesis by (simp add: return_io_def)
  next
    case sig: True
    show ?thesis
    proof (cases "get_prop (req_body req) ''event''")
      case (Inl e)
      with T hash sig threw show ?thesis by simp
    next
      case ev: (Inr ev)
      show ?thesis
      proof (cases "ev = JStr ''charge.success''")
        case False
        with T hash sig ev ignored show ?thesis by (simp add: return_io_def)
      next
        case True
        show ?thesis
        proof (cases "bind_exn (get_prop (req_body req) ''data'') destructure")
          case (Inl e)
          with T hash sig ev True threw show ?thesis by simp
        next
          case (Inr p)
          with T hash sig ev True charge [of h p] show ?thesis by simp
        qed
      qed
    qed
  qed
qed

lemma gate_quiet:
  assumes "T = bind_io (lift (compute_hash w req)) (\<lambda>hash.
             if Some hash \<noteq> req_signature req then return_io R
             else bind_io (lift (get_prop (req_body req) ''event'')) (\<lambda>ev.
               if strict_eq ev (JStr ''charge.success'')
               then bind_io (lift (bind_exn (get_prop (req_body req) ''data'') destructure)) K
               else return_io received))"
    and "snd T \<noteq> []"
  shows "\<exists>h. compute_hash w req = Inr h \<and> req_signature req = Some h"
  using assms(1)
proof (cases rule: gate_cases)
  case (threw e)
  with assms(2) show ?thesis by simp
next
  case rejected
  with assms(2) show ?thesis by simp
next
  case ignored
  with assms(2) show ?thesis by simp
next
  case (charge h p)
  then show ?thesis by blast
qed

lemma calls_imply_authentic:
  assumes "snd (handler_verified w req) \<noteq> [] \<or> snd (handler_order w req) \<noteq> []
         \<or> snd (handler_dual w req) \<noteq> []"
  shows "req_method req = ''POST''
       \<and> (\<exists>h. compute_hash w req = Inr h \<and> req_signature req = Some h)"
proof -
  from assms have post: "req_method req = ''POST''"
    by (auto simp add: handler_verified_def handler_order_def handler_dual_def split: if_splits)
  with assms have "snd (verified_try w req) \<noteq> [] \<or> snd (order_try w req) \<noteq> []
      \<or> snd (dual_try w req) \<noteq> []"
    by (simp add: handler_verified_def handler_order_def handler_dual_def catch_all_parts)
  then have "\<exists>h. compute_hash w req = Inr h \<and> req_signature req = Some h"
    using gate_quiet [OF verified_try_def] gate_quiet [OF order_try_def]
      gate_quiet [OF dual_try_def]
    by blast
  with post show ?thesis by simp
qed

lemma reverify_cases:
  obtains (refused) e where "reverify w p k = (Inl e, [])"
  | (threw) e where "reverify w p k = (Inl e, [VerifyTransaction (reference p)])"
  | (rejected) m where
      "reverify w p k = (Inr (respond 400 (err m)), [VerifyTransaction (reference p)])"
  | (passed) vr where "verify_result w = Inr vr" and "not_verified vr = Inr False"
      and "amount_mismatch vr (amount p) = Inr False"
      and "reverify w p k = (fst k, VerifyTransaction (reference p) # snd k)"
proof (cases "coerce_all [reference p]")
  case (Inl e)
  with refused show ?thesis by (simp add: reverify_def)
next
  case ok: (Inr u)
  show ?thesis
  proof (cases "verify_result w")
    case (Inl e)
    with ok threw show ?thesis by (simp add: reverify_def)
  next
    case vr: (Inr vr)
    show ?thesis
    proof (cases "not_verified vr")
      case (Inl e)
      with ok vr threw show ?thesis by (simp add: reverify_def)
    next
      case bad: (Inr bad)
      show ?thesis
      proof (cases bad)
        case True
        with ok vr bad rejected show ?thesis by (simp add: reverify_def return_io_def)
      next
        case False
        show ?thesis
        proof (cases "amount_mismatch vr (amount p)")
          case (Inl e)
          with ok vr bad False threw show ?thesis by (simp add: reverify_def)
        next
          case (Inr differs)
          with ok vr bad False rejected passed show ?thesis
            by (cases differs) (simp_all add: reverify_def return_io_def)
        qed
      qed
    qed
  qed
qed

lemma reverified_cases:
  assumes T: "T = bind_io (lift (compute_hash w req)) (\<lambda>hash.
             if Some hash \<noteq> req_signature req then return_io R
             else bind_io (lift (get_prop (req_body req) ''event'')) (\<lambda>ev.
               if strict_eq ev (JStr ''charge.success'')
               then bind_io (lift (bind_exn (get_prop (req_body req) ''data'') destructure))
                      (\<lambda>p. reverify w p (k p))
               else return_io received))"
  obtains (quiet) "snd T = []"
  | (verify_threw) e and p :: payment where "T = (Inl e, [VerifyTransaction (reference p)])"
  | (unverified) m and p :: payment where
      "T = (Inr (respond 400 (err m)), [VerifyTransaction (reference p)])"
  | (verified) p where "T = (fst (k p), VerifyTransaction (reference p) # snd (k p))"
  using T
proof (cases rule: gate_cases)
  case (threw e)
  with quiet show ?thesis by simp
next
  case rejected
  with quiet show ?thesis by simp
next
  case ignored
  with quiet show ?thesis by simp
next
  case (charge h p)
  then have eq: "T = reverify w p (k p)" by simp
  show ?thesis
  proof (cases rule: reverify_cases [of w p "k p"])
    case (refused e)
    with eq quiet show ?thesis by simp
  next
    case (threw e)
    with eq verify_threw [of e p] show ?thesis by simp
  next
    case (rejected m)
    with eq unverified [of m p] show ?thesis by simp
  next
    case (passed vr)
    with eq verified [of p] show ?thesis by simp
  qed
qed

lemmas verified_try_cases [case_names quiet verify_threw unverified verified] =
  reverified_cases [where T = "verified_try w req" and k = "notify_charge w" and w = w and req = req
    for w req, unfolded verified_try_def, OF refl, folded verified_try_def]

lemmas dual_try_cases [case_names quiet verify_threw unverified verified] =
  reverified_cases [where T = "dual_try w req" and k = "dual_charge w" and w = w and req = req
    for w req, unfolded dual_try_def, OF refl, folded dual_try_def]

lemma notify_charge_cases:
  obtains (threw) e where "notify_charge w p = (Inl e, [])"
  | (sent) em fs where "snd (notify_charge w p) = [ResendEmail (reference p) (em # fs)]"
      and "resend_result w = Inr False \<Longrightarrow>
             fst (notify_charge w p) = Inl (Error ''Failed to send email'')"
proof (cases "notify_fields (metadata p)")
  case (Inl e)
  with threw show ?thesis by (simp add: notify_charge_def)
next
  case fs: (Inr fs)
  show ?thesis
  proof (cases "coerce_all [amount p, fs ! 6, reference p, paid_at p, fs ! 2]")
    case (Inl e)
    with fs threw show ?thesis by (simp add: notify_charge_def)
  next
    case c1: (Inr u1)
    show ?thesis
    proof (cases "get_prop (customer p) ''email''")
      case (Inl e)
      with fs c1 threw show ?thesis by (simp add: notify_charge_def)
    next
      case em: (Inr em)
      show ?thesis
      proof (cases "coerce_all [em, fs ! 3, fs ! 4, fs ! 5, fs ! 0, fs ! 1]")
        case (Inl e)
        with fs c1 em threw show ?thesis by (simp add: notify_charge_def)
      next
        case (Inr u2)
        with fs c1 em sent [of em fs] show ?thesis
          by (cases "resend_result w") (simp_all add: notify_charge_def)
      qed
    qed
  qed
qed

lemma unsigned_charge_cases:
  obtains (threw) e where "unsigned_charge w p = (Inl e, [])"
  | (sent) fs where "snd (unsigned_charge w p) = [ResendEmail (reference p) fs]"
      and "resend_result w = Inr False \<Longrightarrow>
             fst (unsigned_charge w p) = Inl (Error ''Failed to send email'')"
proof (cases "field_or_default (metadata p) ''product_title'' (JStr ''Unknown Product'')")
  case (Inl e)
  with threw show ?thesis by (simp add: unsigned_charge_def)
next
  case a: (Inr a)
  show ?thesis
  proof (cases "field_or_default (metadata p) ''variant_id'' (JStr ''N/A'')")
    case (Inl e)
    with a threw show ?thesis by (simp add: unsigned_charge_def)
  next
    case b: (Inr b)
    show ?thesis
    proof (cases "coerce_all [amount p, reference p, paid_at p]")
      case (Inl e)
      with a b threw show ?thesis by (simp add: unsigned_charge_def)
    next
      case c1: (Inr u1)
      show ?thesis
      proof (cases "get_prop (customer p) ''email''")
        case (Inl e)
        with a b c1 threw show ?thesis by (simp add: unsigned_charge_def)
      next
        case c: (Inr c)
        show ?thesis
        proof (cases "coerce_all [c]")
          case (Inl e)
          with a b c1 c threw show ?thesis by (simp add: unsigned_charge_def)
        next
          case c2: (Inr u2)
          show ?thesis
          proof (cases "get_prop (customer p) ''customer_code''")
            case (Inl e)
            with a b c1 c c2 threw show ?thesis by (simp add: unsigned_charge_def)
          next
            case d: (Inr d)
            show ?thesis
            proof (cases "coerce_all [d, a, b]")
              case (Inl e)
              with a b c1 c c2 d threw show ?thesis by (simp add: unsigned_charge_def)
            next
              case (Inr u3)
              with a b c1 c c2 d sent [of "[c, d, a, b]"] show ?thesis
                by (cases "resend_result w") (simp_all add: unsigned_charge_def)
            qed
          qed
        qed
      qed
    qed
  qed
qed

lemma dual_charge_cases:
  obtains (threw) e where "dual_charge w p = (Inl e, [])"
  | (sent) em fs where
      "dual_charge w p =
         (Inr (respond 200 (JObj
            [(''success'', JBool True), (''reference'', reference p),
             (''verified'', JBool True),
             (''message'', JStr ''Payment verified, admin notification and customer order summary sent'')])),
          [SendMailAdmin (reference p) (em # fs), SendMailCustomer em fs])"
proof (cases "dual_fields (metadata p)")
  case (Inl e)
  with threw show ?thesis by (simp add: dual_charge_def)
next
  case fs: (Inr fs)
  show ?thesis
  proof (cases "coerce_all [amount p, fs ! 6, reference p, paid_at p, fs ! 2]")
    case (Inl e)
    with fs threw show ?thesis by (simp add: dual_charge_def)
  next
    case c1: (Inr u1)
    show ?thesis
    proof (cases "get_prop (customer p) ''email''")
      case (Inl e)
      with fs c1 threw show ?thesis by (simp add: dual_charge_def)
    next
      case em: (Inr em)
      show ?thesis
      proof (cases "coerce_all [em, fs ! 3, fs ! 4, fs ! 5, fs ! 0, fs ! 1]")
        case (Inl e)
        with fs c1 em threw show ?thesis by (simp add: dual_charge_def)
      next
        case c2: (Inr u2)
        from c1 c2 have c3: "coerce_all [reference p, fs ! 2, paid_at p, fs ! 0, fs ! 4,
            fs ! 5, fs ! 3] = Inr ()"
          by (simp add: coerce_all_def split: if_splits)
        from fs c1 em c2 c3 sent [of em fs] show ?thesis
          by (simp add: dual_charge_def return_io_def)
      qed
    qed
  qed
qed

lemma order_charge_cases:
  obtains (threw) e where "order_charge w p = (Inl e, [])"
  | (created) e em v where "variant_id_of (metadata p) = Inr v"
      and "order_charge w p = (Inl e, [DraftOrderCreate em (reference p) v])"
  | (completed) em v i where "variant_id_of (metadata p) = Inr v"
      and "\<not> create_failed (draft_create_result w)"
      and "snd (order_charge w p) =
             [DraftOrderCreate em (reference p) v, DraftOrderComplete i]"
proof (cases "variant_id_of (metadata p)")
  case (Inl e)
  with threw show ?thesis by (simp add: order_charge_def)
next
  case v: (Inr v)
  show ?thesis
  proof (cases "get_prop (customer p) ''email''")
    case (Inl e)
    with v threw show ?thesis by (simp add: order_charge_def)
  next
    case em: (Inr em)
    show ?thesis
    proof (cases "coerce_all [em, reference p, v]")
      case (Inl e)
      with v em threw show ?thesis by (simp add: order_charge_def)
    next
      case c1: (Inr u1)
      show ?thesis
      proof (cases "draft_create_result w")
        case (Inl e)
        with v em c1 created [of v e em] show ?thesis by (simp add: order_charge_def)
      next
        case sd: (Inr sd)
        show ?thesis
        proof (cases "draft_order_id w sd")
          case (Inl e)
          with v em c1 sd created [of v e em] show ?thesis by (simp add: order_charge_def)
        next
          case i: (Inr i)
          then have ok: "\<not> create_failed (Inr sd)" by (rule draft_order_id_Inr)
          show ?thesis
          proof (cases "coerce_all [i]")
            case (Inl e)
            with v em c1 sd i created [of v e em] show ?thesis by (simp add: order_charge_def)
          next
            case (Inr u2)
            with ok i v em c1 sd completed [of v em i] show ?thesis
              by (cases "draft_complete_result w")
                 (simp_all add: order_charge_def del: create_failed.simps)
          qed
        qed
      qed
    qed
  qed
qed

lemma order_try_cases:
  obtains (quiet) "snd (order_try w req) = []"
  | (threw) h e p where "compute_hash w req = Inr h" and "req_signature req = Some h"
      and "get_prop (req_body req) ''event'' = Inr (JStr ''charge.success'')"
      and "bind_exn (get_prop (req_body req) ''data'') destructure = Inr p"
      and "order_try w req = (Inl e, [VerifyTransaction (reference p)])"
  | (unverified) h p vr where "compute_hash w req = Inr h" and "req_signature req = Some h"
      and "get_prop (req_body req) ''event'' = Inr (JStr ''charge.success'')"
      and "bind_exn (get_prop (req_body req) ''data'') destructure = Inr p"
      and "verify_result w = Inr vr"
      and "bind_exn (get_prop vr ''data'') (\<lambda>d. get_prop d ''status'') \<noteq> Inr (JStr ''success'')"
      and "order_try w req = (Inr received, [VerifyTransaction (reference p)])"
  | (verified) h p vr where "compute_hash w req = Inr h" and "req_signature req = Some h"
      and "get_prop (req_body req) ''event'' = Inr (JStr ''charge.success'')"
      and "bind_exn (get_prop (req_body req) ''data'') destructure = Inr p"
      and "verify_result w = Inr vr"
      and "bind_exn (get_prop vr ''data'') (\<lambda>d. get_prop d ''status'') = Inr (JStr ''success'')"
      and "order_try w req =
             (fst (order_charge w p), VerifyTransaction (reference p) # snd (order_charge w p))"
proof -
  define K where "K = (\<lambda>p.
       bind_io (lift (coerce_all [reference p])) (\<lambda>u.
       bind_io (perform (VerifyTransaction (reference p)) (verify_result w)) (\<lambda>verification.
       bind_io (lift (bind_exn (get_prop verification ''data'') (\<lambda>d. get_prop d ''status''))) (\<lambda>st.
       if strict_eq st (JStr ''success'') then order_charge w p
       else return_io received))))"
  have T: "order_try w req = bind_io (lift (compute_hash w req)) (\<lambda>hash.
             if Some hash \<noteq> req_signature req then return_io (respond 400 (err ''Invalid signature''))
             else bind_io (lift (get_prop (req_body req) ''event'')) (\<lambda>ev.
               if strict_eq ev (JStr ''charge.success'')
               then bind_io (lift (bind_exn (get_prop (req_body req) ''data'') destructure)) K
               else return_io received))"
    unfolding order_try_def K_def by (rule refl)
  from T show ?thesis
  proof (cases rule: gate_cases)
    case (threw e)
    with quiet show ?thesis by simp
  next
    case rejected
    with quiet show ?thesis by simp
  next
    case ignored
    with quiet show ?thesis by simp
  next
    case (charge h p)
    note c = charge
    show ?thesis
    proof (cases "coerce_all [reference p]")
      case (Inl e)
      with c quiet show ?thesis by (simp add: K_def)
    next
      case ok: (Inr u)
      show ?thesis
      proof (cases "verify_result w")
        case (Inl e)
        with c ok threw [of h p e] show ?thesis by (simp add: K_def)
      next
        case vr: (Inr vr)
        show ?thesis
        proof (cases "bind_exn (get_prop vr ''data'') (\<lambda>d. get_prop d ''status'')")
          case (Inl e)
          with c ok vr threw [of h p e] show ?thesis by (simp add: K_def)
        next
          case (Inr st)
          show ?thesis
          proof (cases "st = JStr ''success''")
            case True
            with Inr c ok vr verified [of h p vr] show ?thesis by (simp add: K_def)
          next
            case False
            with Inr c ok vr unverified [of h p vr] show ?thesis
              by (simp add: K_def return_io_def)
          qed
        qed
      qed
    qed
  qed
qed

lemma dual_sends:
  "snd (handler_dual w req) = [] \<or> (\<exists>r. snd (handler_dual w req) = [VerifyTransaction r])
 \<or> (\<exists>r em fs. snd (handler_dual w req) =
        [VerifyTransaction r, SendMailAdmin r (em # fs), SendMailCustomer em fs]
      \<and> status (fst (handler_dual w req)) = 200)"
proof (cases "req_method req = ''POST''")
  case False
  then show ?thesis by (simp add: handler_dual_def)
next
  case True
  then have eq: "handler_dual w req = catch_all (dual_try w req)"
    by (simp add: handler_dual_def)
  show ?thesis
  proof (cases rule: dual_try_cases [of w req])
    case quiet
    with eq show ?thesis by (simp add: catch_all_parts)
  next
    case (verify_threw e p)
    with eq show ?thesis by (simp add: catch_all_parts)
  next
    case (unverified m p)
    with eq show ?thesis by (simp add: catch_all_parts)
  next
    case (verified p)
    note v = verified
    show ?thesis
    proof (cases rule: dual_charge_cases [of w p])
      case (threw e)
      with eq v show ?thesis by (simp add: catch_all_parts)
    next
      case (sent em fs)
      with eq v show ?thesis by (simp add: catch_all_parts respond_def)
    qed
  qed
qed

lemma email_failure_fails_verified:
  assumes "ResendEmail r fs \<in> set (snd (handler_verified w req))" and "resend_result w = Inr False"
  shows "fst (handler_verified w req) = respond 500 (err ''Failed to send email'')"
proof (cases "req_method req = ''POST''")
  case False
  with assms show ?thesis by (simp add: handler_verified_def)
next
  case True
  then have eq: "handler_verified w req = catch_all (verified_try w req)"
    by (simp add: handler_verified_def)
  show ?thesis
  proof (cases rule: verified_try_cases [of w req])
    case quiet
    with assms eq show ?thesis by (simp add: catch_all_parts)
  next
    case (verify_threw e p)
    with assms eq show ?thesis by (simp add: catch_all_parts)
  next
    case (unverified m p)
    with assms eq show ?thesis by (simp add: catch_all_parts)
  next
    case (verified p)
    note v = verified
    show ?thesis
    proof (cases rule: notify_charge_cases [of w p])
      case (threw e)
      with assms eq v show ?thesis by (simp add: catch_all_parts)
    next
      case (sent em fs)
      with assms(2) eq v show ?thesis by (simp add: catch_all_parts)
    qed
  qed
qed

lemma email_failure_fails_unsigned:
  assumes "ResendEmail r fs \<in> set (snd (handler_unsigned w req))" and "resend_result w = Inr False"
  shows "fst (handler_unsigned w req) = respond 500 (err ''Failed to send email'')"
proof (cases "req_method req = ''POST''")
  case False
  with assms show ?thesis by (simp add: handler_unsigned_def)
next
  case True
  then have eq: "handler_unsigned w req = catch_all (unsigned_try w req)"
    by (simp add: handler_unsigned_def)
  show ?thesis
  proof (cases "get_prop (req_body req) ''event''")
    case (Inl e)
    with assms eq show ?thesis by (simp add: unsigned_try_def catch_all_parts)
  next
    case ev: (Inr ev)
    show ?thesis
    proof (cases "ev = JStr ''charge.success''")
      case False
      with assms eq ev show ?thesis by (simp add: unsigned_try_def catch_all_parts)
    next
      case True
      show ?thesis
      proof (cases "bind_exn (get_prop (req_body req) ''data'') destructure")
        case (Inl e)
        with assms eq ev True show ?thesis by (simp add: unsigned_try_def catch_all_parts)
      next
        case (Inr p)
        with ev True have t: "unsigned_try w req = unsigned_charge w p"
          by (simp add: unsigned_try_def)
        show ?thesis
        proof (cases rule: unsigned_charge_cases [of w p])
          case (threw e)
          with assms eq t show ?thesis by (simp add: catch_all_parts)
        next
          case (sent fs)
          with assms(2) eq t show ?thesis by (simp add: catch_all_parts)
        qed
      qed
    qed
  qed
qed

subsection \<open>What a handler does not depend on\<close>

lemma compute_hash_raw [simp]: "compute_hash w (req\<lparr>req_raw := b\<rparr>) = compute_hash w req"
  by (simp add: compute_hash_def signed_text_def cong: option.case_cong)

lemma try_raw [simp]:
  "verified_try w (req\<lparr>req_raw := b\<rparr>) = verified_try w req"
  "order_try w (req\<lparr>req_raw := b\<rparr>) = order_try w req"
  "dual_try w (req\<lparr>req_raw := b\<rparr>) = dual_try w req"
  by (simp_all add: verified_try_def order_try_def dual_try_def cong: if_cong)

lemma compute_hash_mail [simp]:
  "compute_hash (w\<lparr>admin_mail_result := a, customer_mail_result := c\<rparr>) req = compute_hash w req"
  by (simp add: compute_hash_def signed_text_def JSON_stringify_def cong: option.case_cong)

lemma dual_charge_mail [simp]:
  "dual_charge (w\<lparr>admin_mail_result := a, customer_mail_result := c\<rparr>) p = dual_charge w p"
  by (simp add: dual_charge_def)

lemma reverify_mail [simp]:
  "reverify (w\<lparr>admin_mail_result := a, customer_mail_result := c\<rparr>) p k = reverify w p k"
  by (simp add: reverify_def)

lemma dual_try_mail:
  "dual_try (w\<lparr>admin_mail_result := a, customer_mail_result := c\<rparr>) req = dual_try w req"
  by (simp add: dual_try_def cong: if_cong)

subsection \<open>Status codes\<close>

lemma io_status_in_bind:
  assumes "\<And>x. io_status_in S (f x)"
  shows "io_status_in S (bind_io m f)"
proof (cases "fst m")
  case (Inl e)
  then show ?thesis by (simp add: io_status_in_def fst_bind_io)
next
  case (Inr x)
  with assms [of x] show ?thesis by (simp add: io_status_in_def fst_bind_io)
qed

lemma io_status_in_return: "status r \<in> S \<Longrightarrow> io_status_in S (return_io r)"
  by (simp add: io_status_in_def)

lemma io_status_in_throw: "io_status_in S (throw_io e)"
  by (simp add: io_status_in_def)

lemma io_status_in_if:
  "io_status_in S a \<Longrightarrow> io_status_in S b \<Longrightarrow> io_status_in S (if c then a else b)"
  by simp

lemma io_status_in_catch:
  "io_status_in S m \<Longrightarrow> status (fst (catch_all m)) \<in> insert 500 S"
  by (simp add: io_status_in_def catch_all_parts respond_def split: sum.splits)

lemmas io_status_intros = io_status_in_bind io_status_in_if io_status_in_return io_status_in_throw





subsection \<open>The sample data evaluated\<close>

lemma signed_simps [simp]:
  "req_method (signed b) = ''POST''"
  "req_body (signed b) = b"
  "req_signature (signed b) = Some (example_hmac ''sk'' (stringify_value b))"
  by (simp_all add: signed_def)

lemma compute_hash_signed:
  assumes "PAYSTACK_SECRET_KEY w = Some ''sk''" and "hmac_sha512_hex w = example_hmac"
    and "stringify w = stringify_value" and "req_body req = b" and "b \<noteq> JUndefined"
  shows "compute_hash w req = Inr (example_hmac ''sk'' (stringify_value b))"
  using assms by (simp add: compute_hash_def signed_text_def JSON_stringify_def)

lemma sample_world_simps [simp]:
  "PAYSTACK_SECRET_KEY sample_world = Some ''sk''"
  "hmac_sha512_hex sample_world = example_hmac"
  "stringify sample_world = stringify_value"
  "verify_result sample_world = Inr (verification ''success'' 500000)"
  "resend_result sample_world = Inr True"
  "draft_create_result sample_world = Inr (JObj [(''data'', JObj [(''draftOrderCreate'',
         JObj [(''draftOrder'', JObj [(''id'', JStr ''gid://shopify/DraftOrder/1'')])])])])"
  "draft_complete_result sample_world = Inr ()"
  "admin_mail_result sample_world = Inr ()"
  "customer_mail_result sample_world = Inr ()"
  by (simp_all add: sample_world_def)

lemma charge_event_simps [simp]:
  "charge_event cfs \<noteq> JUndefined"
  "charge_event cfs \<noteq> JNull"
  "get_prop (charge_event cfs) ''event'' = Inr (JStr ''charge.success'')"
  "bind_exn (get_prop (charge_event cfs) ''data'') destructure =
     Inr \<lparr>reference = JStr ''ref_1'', amount = JNum 500000,
          customer = JObj [(''email'', JStr ''buyer@example.com'')],
          metadata = JObj [(''custom_fields'', JArr cfs)], paid_at = JUndefined\<rparr>"
  by (simp_all add: charge_event_def destructure_def)

lemma verification_simps [simp]:
  "not_verified (verification st n) = Inr (st \<noteq> ''success'')"
  "amount_mismatch (verification st n) a = Inr (a \<noteq> JNum n)"
  "bind_exn (get_prop (verification st n) ''data'') (\<lambda>d. get_prop d ''status'') = Inr (JStr st)"
  by (simp_all add: verification_def not_verified_def amount_mismatch_def)

lemma variant_id_of_sample [simp]:
  "variant_id_of (JObj [(''custom_fields'', JArr [field ''variant_id'' ''987''])]) = Inr (JStr ''987'')"
  by (simp add: variant_id_of_def field_def)

lemma quote_plain [simp]:
  "quote ''event'' = CHR 0x22 # ''event'' @ [CHR 0x22]"
  "quote ''ping'' = CHR 0x22 # ''ping'' @ [CHR 0x22]"
  by (simp_all add: quote_def escape_char_def)

section \<open>Re-verification against the processor\<close>

text \<open>
  The verified notification and the two-email handler reject an event the processor
  does not confirm: when the reference converts to text and the processor's answer has
  a \<open>data\<close> object whose status is not \<open>success\<close> or whose amount is not
  strictly equal to the claimed one, the response is 400 and the verification call is
  the only call made.
\<close>

lemma reverified_handlers_reject:
  assumes "req_method req = ''POST''" and "compute_hash w req = Inr h"
    and "req_signature req = Some h"
    and "get_prop (req_body req) ''event'' = Inr (JStr ''charge.success'')"
    and "bind_exn (get_prop (req_body req) ''data'') destructure = Inr p"
    and "verify_result w = Inr vr" and "get_prop vr ''data'' = Inr d" and "\<not> nullish d"
    and "read d ''status'' \<noteq> JStr ''success'' \<or> \<not> strict_eq (read d ''amount'') (amount p)"
    and "coercible (reference p)"
  shows "status (fst (handler_verified w req)) = 400
       \<and> snd (handler_verified w req) = [VerifyTransaction (reference p)]
       \<and> status (fst (handler_dual w req)) = 400
       \<and> snd (handler_dual w req) = [VerifyTransaction (reference p)]"
proof -
  from assms(7) have "\<not> nullish vr" using get_prop_Inr_iff by blast
  then have st: "get_prop vr ''status'' = Inr (read vr ''status'')" by (rule get_prop_read)
  have nv: "not_verified vr =
      Inr (\<not> truthy (read vr ''status'') \<or> read d ''status'' \<noteq> JStr ''success'')"
    using st assms(7,8) by (simp add: not_verified_def get_prop_read)
  have am: "amount_mismatch vr (amount p) = Inr (\<not> strict_eq (read d ''amount'') (amount p))"
    using assms(7,8) by (simp add: amount_mismatch_def get_prop_read)
  have "\<exists>m. reverify w p k = (Inr (respond 400 (err m)), [VerifyTransaction (reference p)])"
    for k
    using assms(6,9,10) nv am by (auto simp add: reverify_def coerce_all_def return_io_def)
  then obtain m1 m2 where
    "reverify w p (notify_charge w p) = (Inr (respond 400 (err m1)), [VerifyTransaction (reference p)])"
    "reverify w p (dual_charge w p) = (Inr (respond 400 (err m2)), [VerifyTransaction (reference p)])"
    by blast
  with assms(1-5) show ?thesis
    by (simp add: handler_verified_def verified_try_def handler_dual_def dual_try_def
        catch_all_def respond_def)
qed

text \<open>
  Claim C1. With a valid signature and a \<open>charge.success\<close> event, a verification
  response whose \<open>data.status\<close> is not \<open>success\<close>, or whose \<open>data.amount\<close>
  differs from the amount in the webhook body, is to end in status 400 with no email and
  no order call. The order-creation handler does not do this. Run on the signed sample
  event (claimed amount 500000) against a processor that reports success with amount
  400000, it creates and completes the draft order and answers 200; the verified
  notification handler answers 400 on the same input. Against a processor that reports
  status \<open>failed\<close>, the order-creation handler makes no order call but answers
  200 \<open>{received: true}\<close>, not 400.
\<close>

theorem order_handler_ignores_amount:
  "handler_order (sample_world\<lparr>verify_result := Inr (verification ''success'' 400000)\<rparr>)
     (signed (charge_event [field ''variant_id'' ''987'']))
   = (respond 200 (JObj [(''success'', JBool True), (''reference'', JStr ''ref_1''),
                         (''message'', JStr ''Order created successfully'')]),
      [VerifyTransaction (JStr ''ref_1''),
       DraftOrderCreate (JStr ''buyer@example.com'') (JStr ''ref_1'') (JStr ''987''),
       DraftOrderComplete (JStr ''gid://shopify/DraftOrder/1'')])
 \<and> handler_verified (sample_world\<lparr>verify_result := Inr (verification ''success'' 400000)\<rparr>)
     (signed (charge_event [field ''variant_id'' ''987'']))
   = (respond 400 (err ''Amount mismatch''), [VerifyTransaction (JStr ''ref_1'')])
 \<and> handler_order (sample_world\<lparr>verify_result := Inr (verification ''failed'' 500000)\<rparr>)
     (signed (charge_event [field ''variant_id'' ''987'']))
   = (received, [VerifyTransaction (JStr ''ref_1'')])"
  by (simp add: handler_order_def order_try_def order_charge_def handler_verified_def
      verified_try_def reverify_def compute_hash_signed draft_order_id_def catch_all_def
      return_io_def coerce_all_def)

section \<open>Signature check\<close>

text \<open>
  The three handlers of \<open>api/webhook.js\<close> begin with the signature step: a POST
  request whose header is not the hash the handler computes is answered 401 (400 by
  the order-creation handler) and no outbound call is made.
\<close>

lemma signature_mismatch_rejected:
  assumes "req_method req = ''POST''"
    and "compute_hash w req = Inr h"
    and "req_signature req \<noteq> Some h"
  shows "handler_verified w req = (respond 401 (err ''Invalid signature''), [])
       \<and> handler_order w req = (respond 400 (err ''Invalid signature''), [])
       \<and> handler_dual w req = (respond 401 (err ''Invalid signature''), [])"
  using assms
  by (auto simp add: handler_verified_def verified_try_def handler_order_def order_try_def
      handler_dual_def dual_try_def catch_all_def return_io_def)

text \<open>Past the signature step, no handler answers with the status of a bad signature.\<close>

lemma after_gate_status:
  assumes "compute_hash w req = Inr h" and "req_signature req = Some h"
  shows "io_status_in {400, 200} (verified_try w req)"
    and "io_status_in {200} (order_try w req)"
    and "io_status_in {400, 200} (dual_try w req)"
proof -
  have v: "verified_try w req =
      bind_io (lift (get_prop (req_body req) ''event'')) (\<lambda>ev.
        if strict_eq ev (JStr ''charge.success'') then
          bind_io (lift (bind_exn (get_prop (req_body req) ''data'') destructure)) (\<lambda>p.
            reverify w p (notify_charge w p))
        else return_io received)"
    using assms by (simp add: verified_try_def)
  show "io_status_in {400, 200} (verified_try w req)"
    unfolding v reverify_def notify_charge_def
    by (intro io_status_intros) (simp_all add: respond_def received_def)
  have d: "dual_try w req =
      bind_io (lift (get_prop (req_body req) ''event'')) (\<lambda>ev.
        if strict_eq ev (JStr ''charge.success'') then
          bind_io (lift (bind_exn (get_prop (req_body req) ''data'') destructure)) (\<lambda>p.
            reverify w p (dual_charge w p))
        else return_io received)"
    using assms by (simp add: dual_try_def)
  show "io_status_in {400, 200} (dual_try w req)"
    unfolding d reverify_def dual_charge_def
    by (intro io_status_intros) (simp_all add: respond_def received_def)
  have o: "order_try w req =
      bind_io (lift (get_prop (req_body req) ''event'')) (\<lambda>ev.
        if strict_eq ev (JStr ''charge.success'') then
          bind_io (lift (bind_exn (get_prop (req_body req) ''data'') destructure)) (\<lambda>p.
          bind_io (lift (coerce_all [reference p])) (\<lambda>u.
          bind_io (perform (VerifyTransaction (reference p)) (verify_result w)) (\<lambda>verification.
          bind_io (lift (bind_exn (get_prop verification ''data'') (\<lambda>d. get_prop d ''status''))) (\<lambda>st.
          if strict_eq st (JStr ''success'') then order_charge w p
          else return_io received))))
        else return_io received)"
    using assms by (simp add: order_try_def)
  show "io_status_in {200} (order_try w req)"
    unfolding o order_charge_def
    by (intro io_status_intros) (simp_all add: respond_def received_def)
qed

text \<open>
  Claim C2. A POST request whose \<open>x-paystack-signature\<close> header is not the HMAC of
  the body under the shared secret is to be answered 401 or 400 with no outbound call,
  before any business logic. The handler of the file without a signature step does not
  do this: it reads neither the header nor the secret. On the sample
  \<open>charge.success\<close> event with a forged signature header, and on the same event
  with no signature header at all, it sends the notification email and answers 200; the
  verified notification handler answers 401 on the forged request and makes no call.
\<close>

theorem unsigned_handler_has_no_gate:
  "handler_unsigned sample_world
     ((signed (charge_event [field ''variant_id'' ''987'']))\<lparr>req_signature := Some ''forged''\<rparr>)
   = (\<lparr>status = 200,
       payload = JObj [(''success'', JBool True), (''reference'', JStr ''ref_1''),
                       (''message'', JStr ''Email notification sent'')]\<rparr>,
      [ResendEmail (JStr ''ref_1'')
         [JStr ''buyer@example.com'', JUndefined, JStr ''Unknown Product'', JStr ''987'']])
 \<and> handler_unsigned sample_world
     ((signed (charge_event [field ''variant_id'' ''987'']))\<lparr>req_signature := None\<rparr>)
   = (\<lparr>status = 200,
       payload = JObj [(''success'', JBool True), (''reference'', JStr ''ref_1''),
                       (''message'', JStr ''Email notification sent'')]\<rparr>,
      [ResendEmail (JStr ''ref_1'')
         [JStr ''buyer@example.com'', JUndefined, JStr ''Unknown Product'', JStr ''987'']])
 \<and> handler_verified sample_world
     ((signed (charge_event [field ''variant_id'' ''987'']))\<lparr>req_signature := Some ''forged''\<rparr>)
   = (\<lparr>status = 401, payload = JObj [(''error'', JStr ''Invalid signature'')]\<rparr>, [])"
  by (simp add: handler_unsigned_def unsigned_try_def unsigned_charge_def
      field_or_default_def field_value_def or_else_def field_def
      handler_verified_def verified_try_def compute_hash_signed example_hmac_def
      catch_all_def return_io_def respond_def err_def coerce_all_def)

text \<open>
  Claim C3, as the code has it. The message whose HMAC is compared with the header is
  \<open>JSON.stringify(req.body)\<close>, the re-serialisation of the parsed body, and not the
  bytes received: for a POST request, with the secret set and a body other than
  \<open>undefined\<close>, each signed handler answers \<open>Invalid signature\<close> (401, or 400 in
  the order-creation handler, with no outbound call) exactly when the header differs
  from the keyed hash of that re-serialisation. So a request whose header is the keyed
  hash of its raw bytes is rejected whenever that hash differs from the hash of the
  re-serialisation.
\<close>

theorem signature_over_reserialized_body:
  assumes "req_method req = ''POST''" and "PAYSTACK_SECRET_KEY w = Some k"
    and "req_body req \<noteq> JUndefined"
  shows "((handler_verified w req =
            (\<lparr>status = 401, payload = JObj [(''error'', JStr ''Invalid signature'')]\<rparr>, []))
          = (req_signature req \<noteq> Some (hmac_sha512_hex w k (stringify w (req_body req)))))
       \<and> ((handler_order w req =
            (\<lparr>status = 400, payload = JObj [(''error'', JStr ''Invalid signature'')]\<rparr>, []))
          = (req_signature req \<noteq> Some (hmac_sha512_hex w k (stringify w (req_body req)))))
       \<and> ((handler_dual w req =
            (\<lparr>status = 401, payload = JObj [(''error'', JStr ''Invalid signature'')]\<rparr>, []))
          = (req_signature req \<noteq> Some (hmac_sha512_hex w k (stringify w (req_body req)))))
       \<and> (req_signature req = Some (hmac_sha512_hex w k (req_raw req))
            \<and> hmac_sha512_hex w k (req_raw req)
                \<noteq> hmac_sha512_hex w k (stringify w (req_body req))
          \<longrightarrow> handler_verified w req =
                (\<lparr>status = 401, payload = JObj [(''error'', JStr ''Invalid signature'')]\<rparr>, [])
            \<and> handler_order w req =
                (\<lparr>status = 400, payload = JObj [(''error'', JStr ''Invalid signature'')]\<rparr>, [])
            \<and> handler_dual w req =
                (\<lparr>status = 401, payload = JObj [(''error'', JStr ''Invalid signature'')]\<rparr>, []))"
proof -
  let ?h = "hmac_sha512_hex w k (stringify w (req_body req))"
  have hash: "compute_hash w req = Inr ?h"
    using assms(2,3) by (simp add: compute_hash_def signed_text_def JSON_stringify_def)
  have bad: "handler_verified w req =
               (\<lparr>status = 401, payload = JObj [(''error'', JStr ''Invalid signature'')]\<rparr>, [])
           \<and> handler_order w req =
               (\<lparr>status = 400, payload = JObj [(''error'', JStr ''Invalid signature'')]\<rparr>, [])
           \<and> handler_dual w req =
               (\<lparr>status = 401, payload = JObj [(''error'', JStr ''Invalid signature'')]\<rparr>, [])"
    if "req_signature req \<noteq> Some ?h"
    using signature_mismatch_rejected [OF assms(1) hash that]
    by (simp add: respond_def err_def)
  have good: "status (fst (handler_verified w req)) \<noteq> 401
           \<and> status (fst (handler_order w req)) \<noteq> 400
           \<and> status (fst (handler_dual w req)) \<noteq> 401"
    if sig: "req_signature req = Some ?h"
    using io_status_in_catch [OF after_gate_status(1) [OF hash sig]]
      io_status_in_catch [OF after_gate_status(2) [OF hash sig]]
      io_status_in_catch [OF after_gate_status(3) [OF hash sig]]
      assms(1)
    by (auto simp add: handler_verified_def handler_order_def handler_dual_def)
  show ?thesis
  proof (cases "req_signature req = Some ?h")
    case True
    with good show ?thesis by auto
  next
    case False
    with bad show ?thesis by simp
  qed
qed

text \<open>
  The request whose raw text has a space after the colon and whose header is the keyed
  hash of that raw text is rejected; the request with the same body whose header is the
  keyed hash of the compact text is not.
\<close>

theorem signature_over_reserialized_body_witness:
  "handler_verified sample_world spaced_request =
     (\<lparr>status = 401, payload = JObj [(''error'', JStr ''Invalid signature'')]\<rparr>, [])
 \<and> handler_verified sample_world (signed (JObj [(''event'', JStr ''ping'')])) \<noteq>
     (\<lparr>status = 401, payload = JObj [(''error'', JStr ''Invalid signature'')]\<rparr>, [])"
  using signature_over_reserialized_body [of spaced_request sample_world "''sk''"]
    signature_over_reserialized_body
      [of "signed (JObj [(''event'', JStr ''ping'')])" sample_world "''sk''"]
  by (simp add: spaced_request_def spaced_raw_def example_hmac_def)

text \<open>
  Claim C3 as stated fails. The raw body of the sample request is the text of the
  object with the one property \<open>event\<close>, with a space after the colon. The text the
  handler hashes is not the raw body; and a header equal to the keyed hash of the key
  and the raw body, which the claim says authenticates, is answered 401.
\<close>

theorem raw_body_not_signed:
  "signed_text sample_world spaced_request \<noteq> Some (req_raw spaced_request)
 \<and> req_signature spaced_request
     = Some (hmac_sha512_hex sample_world ''sk'' (req_raw spaced_request))
 \<and> handler_verified sample_world spaced_request =
     (\<lparr>status = 401, payload = JObj [(''error'', JStr ''Invalid signature'')]\<rparr>, [])"
  by (simp add: spaced_request_def spaced_raw_def signed_text_def JSON_stringify_def
      handler_verified_def verified_try_def compute_hash_def example_hmac_def
      catch_all_def return_io_def respond_def err_def)

section \<open>Other events\<close>

text \<open>
  Claim C5. An authenticated POST request whose event type is not
  \<open>charge.success\<close> is answered with status 200 and body \<open>{received: true}\<close>, and
  no outbound call is made. The body is any JSON value but \<open>null\<close> (an object in
  practice); its event type is whatever its property \<open>event\<close> holds,
  \<open>undefined\<close> included. The same holds of the handler without a signature step.
\<close>

theorem other_events_acknowledged:
  assumes "req_method req = ''POST''"
    and "compute_hash w req = Inr h"
    and "req_signature req = Some h"
    and "req_body req \<noteq> JNull"
    and "get_prop (req_body req) ''event'' \<noteq> Inr (JStr ''charge.success'')"
  shows "handler_verified w req =
           (\<lparr>status = 200, payload = JObj [(''received'', JBool True)]\<rparr>, [])
       \<and> handler_order w req =
           (\<lparr>status = 200, payload = JObj [(''received'', JBool True)]\<rparr>, [])
       \<and> handler_dual w req =
           (\<lparr>status = 200, payload = JObj [(''received'', JBool True)]\<rparr>, [])
       \<and> handler_unsigned w req =
           (\<lparr>status = 200, payload = JObj [(''received'', JBool True)]\<rparr>, [])"
proof -
  from assms(2) have "req_body req \<noteq> JUndefined"
    by (auto simp add: compute_hash_def signed_text_def JSON_stringify_def split: option.splits)
  with assms(4) obtain ev where ev: "get_prop (req_body req) ''event'' = Inr ev"
    by (cases "req_body req") auto
  with assms(5) have "ev \<noteq> JStr ''charge.success''" by simp
  with ev assms(1-3) show ?thesis
    by (simp add: handler_verified_def verified_try_def handler_order_def order_try_def
        handler_dual_def dual_try_def handler_unsigned_def unsigned_try_def
        catch_all_def return_io_def received_def respond_def)
qed

text \<open>A signed \<open>transfer.success\<close> event.\<close>

theorem other_events_acknowledged_witness:
  "handler_verified sample_world (signed (JObj [(''event'', JStr ''transfer.success'')]))
     = (\<lparr>status = 200, payload = JObj [(''received'', JBool True)]\<rparr>, [])
 \<and> handler_order sample_world (signed (JObj [(''event'', JStr ''transfer.success'')]))
     = (\<lparr>status = 200, payload = JObj [(''received'', JBool True)]\<rparr>, [])
 \<and> handler_dual sample_world (signed (JObj [(''event'', JStr ''transfer.success'')]))
     = (\<lparr>status = 200, payload = JObj [(''received'', JBool True)]\<rparr>, [])
 \<and> handler_unsigned sample_world (signed (JObj [(''event'', JStr ''transfer.success'')]))
     = (\<lparr>status = 200, payload = JObj [(''received'', JBool True)]\<rparr>, [])"
  using other_events_acknowledged
    [of "signed (JObj [(''event'', JStr ''transfer.success'')])" sample_world
        "example_hmac ''sk'' (stringify_value (JObj [(''event'', JStr ''transfer.success'')]))"]
  by (simp add: compute_hash_signed)

section \<open>Metadata lookups\<close>

text \<open>
  Claim C6, as the code has it. Let the metadata be a value whose \<open>custom_fields\<close>
  can be read and is absent (\<open>undefined\<close> or \<open>null\<close>) or an array without
  \<open>null\<close> entries. Then the lookup \<open>custom_fields?.find(...)?.value || d\<close> does not
  throw. It returns the value of the first entry whose \<open>variable_name\<close> is exactly
  the requested name when that value is truthy, and the default \<open>d\<close> when no entry
  matches or when that first entry's value is falsy. With \<open>custom_fields\<close> absent,
  the seven lookups of the verified notification return their documented defaults.
\<close>

theorem field_lookup_truthy_or_default:
  assumes "get_prop md ''custom_fields'' = Inr cf"
    and "nullish cf \<or> (\<exists>fs. cf = JArr fs \<and> (\<forall>f\<in>set fs. \<not> nullish f))"
  shows "field_or_default md name d =
           Inr (case first_match name (entries cf) of
                  None \<Rightarrow> d
                | Some v \<Rightarrow> if truthy v then v else d)
       \<and> (nullish cf \<longrightarrow>
            notify_fields md = Inr [JStr ''Unknown Product'', JStr ''N/A'', JStr ''N/A'',
              JStr ''N/A'', JStr ''N/A'', JStr ''N/A'', JStr ''0''])"
proof (cases "nullish cf")
  case True
  with assms(1) show ?thesis
    by (cases cf)
       (simp_all add: field_or_default_def field_value_def or_else_def first_match_def
          notify_fields_def)
next
  case False
  with assms(2) obtain fs where fs: "cf = JArr fs" "\<forall>f\<in>set fs. \<not> nullish f" by blast
  show ?thesis
  proof (cases "List.find (has_name name) fs")
    case None
    with fs assms(1) False show ?thesis
      by (simp add: field_or_default_def field_value_def or_else_def first_match_def find_field_total)
  next
    case (Some f)
    with fs have "\<not> nullish f" by (blast dest: find_Some_not_nullish)
    with Some fs assms(1) False show ?thesis
      by (simp add: field_or_default_def field_value_def or_else_def first_match_def
          find_field_total get_prop_read)
  qed
qed

text \<open>
  Two entries named \<open>phone\<close>: the first one wins. No entry named
  \<open>shipping_fee\<close>, and no \<open>custom_fields\<close> at all: the default.
\<close>

theorem field_lookup_truthy_or_default_witness:
  "field_or_default
     (JObj [(''custom_fields'', JArr [field ''phone'' ''0801'', field ''address'' ''Lagos'',
                                     field ''phone'' ''0902''])])
     ''phone'' (JStr ''N/A'') = Inr (JStr ''0801'')
 \<and> field_or_default
     (JObj [(''custom_fields'', JArr [field ''phone'' ''0801'', field ''address'' ''Lagos'',
                                     field ''phone'' ''0902''])])
     ''shipping_fee'' (JStr ''0'') = Inr (JStr ''0'')
 \<and> field_or_default (JObj []) ''product_title'' (JStr ''Unknown Product'')
     = Inr (JStr ''Unknown Product'')"
  using field_lookup_truthy_or_default
    [of "JObj [(''custom_fields'', JArr [field ''phone'' ''0801'', field ''address'' ''Lagos'',
                                        field ''phone'' ''0902''])]"
        "JArr [field ''phone'' ''0801'', field ''address'' ''Lagos'', field ''phone'' ''0902'']"
        "''phone''" "JStr ''N/A''"]
    field_lookup_truthy_or_default
    [of "JObj [(''custom_fields'', JArr [field ''phone'' ''0801'', field ''address'' ''Lagos'',
                                        field ''phone'' ''0902''])]"
        "JArr [field ''phone'' ''0801'', field ''address'' ''Lagos'', field ''phone'' ''0902'']"
        "''shipping_fee''" "JStr ''0''"]
    field_lookup_truthy_or_default
    [of "JObj []" JUndefined "''product_title''" "JStr ''Unknown Product''"]
  by (simp add: field_def first_match_def has_name_def read_def)

text \<open>
  Claim C6 as stated fails. The first entry named \<open>phone\<close> has the empty string as
  its value; the lookup returns neither that value nor the value of the second entry
  named \<open>phone\<close>, but the default.
\<close>

theorem falsy_value_gives_default:
  "first_match ''phone'' [field ''phone'' [], field ''phone'' ''0902''] = Some (JStr [])
 \<and> field_or_default (JObj [(''custom_fields'', JArr [field ''phone'' [], field ''phone'' ''0902''])])
     ''phone'' (JStr ''N/A'') = Inr (JStr ''N/A'')"
  by (simp add: field_or_default_def field_value_def or_else_def field_def first_match_def
      has_name_def read_def)

section \<open>Order creation\<close>

text \<open>
  Claim C7. In the order-creation handler, when the event carries no variant id (no
  entry named \<open>variant_id\<close> in the metadata fields, or a falsy value in the first
  such entry), neither the draft-order call nor the completion call is made, whatever
  the request and whatever the outside world answers. When such an event is
  authenticated, is a \<open>charge.success\<close> and the processor reports success, the
  response is 500.
\<close>

theorem no_variant_no_order:
  assumes "event_variant_id (req_body req) = None"
  shows "filter is_order_call (snd (handler_order w req)) = []
       \<and> (req_method req = ''POST'' \<and> compute_hash w req = Inr h \<and> req_signature req = Some h
          \<and> read (req_body req) ''event'' = JStr ''charge.success''
          \<and> verify_result w = Inr vr \<and> read (read vr ''data'') ''status'' = JStr ''success''
          \<longrightarrow> status (fst (handler_order w req)) = 500)"
proof -
  have none: "variant_id_of (metadata p) \<noteq> Inr v"
    if "bind_exn (get_prop (req_body req) ''data'') destructure = Inr p" for p v
  proof
    assume "variant_id_of (metadata p) = Inr v"
    then have "first_match ''variant_id'' (entries (read (metadata p) ''custom_fields'')) = Some v"
      and "truthy v"
      by (simp_all add: variant_id_of_sound)
    moreover have "metadata p = read (read (req_body req) ''data'') ''metadata''"
      by (subst payment_of_body [OF that]) simp
    ultimately show False using assms by (simp add: event_variant_id_def)
  qed
  have calls: "filter is_order_call (snd (handler_order w req)) = []"
  proof (cases "req_method req = ''POST''")
    case False
    then show ?thesis by (simp add: handler_order_def)
  next
    case True
    then have eq: "snd (handler_order w req) = snd (order_try w req)"
      by (simp add: handler_order_def catch_all_parts)
    show ?thesis
    proof (cases rule: order_try_cases [of w req])
      case quiet
      with eq show ?thesis by simp
    next
      case (threw h e p)
      with eq show ?thesis by simp
    next
      case (unverified h p vr)
      with eq show ?thesis by simp
    next
      case (verified h p vr)
      note v = verified
      show ?thesis
      proof (cases rule: order_charge_cases [of w p])
        case (threw e)
        with eq v show ?thesis by simp
      next
        case (created e em x)
        with none [OF v(4), of x] show ?thesis by simp
      next
        case (completed em x i)
        with none [OF v(4), of x] show ?thesis by simp
      qed
    qed
  qed
  have "status (fst (handler_order w req)) = 500"
    if post: "req_method req = ''POST''" and hash: "compute_hash w req = Inr h"
      and sig: "req_signature req = Some h"
      and ev: "read (req_body req) ''event'' = JStr ''charge.success''"
      and vr: "verify_result w = Inr vr"
      and st: "read (read vr ''data'') ''status'' = JStr ''success''"
  proof -
    from ev have "\<not> nullish (req_body req)" by (auto simp add: read_nullish)
    with ev have ev': "get_prop (req_body req) ''event'' = Inr (JStr ''charge.success'')"
      by (simp add: get_prop_read)
    from st have "\<not> nullish (read vr ''data'')" by (auto simp add: read_nullish)
    moreover from this have "\<not> nullish vr" by (auto simp add: read_nullish)
    ultimately have st': "bind_exn (get_prop vr ''data'') (\<lambda>d. get_prop d ''status'') = Inr (JStr ''success'')"
      using st by (simp add: get_prop_read)
    show ?thesis
    proof (cases "bind_exn (get_prop (req_body req) ''data'') destructure")
      case (Inl e)
      with post hash sig ev' show ?thesis
        by (simp add: handler_order_def order_try_def catch_all_def respond_def)
    next
      case (Inr p)
      with none obtain e where "variant_id_of (metadata p) = Inl e"
        by (cases "variant_id_of (metadata p)") auto
      with Inr post hash sig ev' vr st' show ?thesis
        by (simp add: handler_order_def order_try_def order_charge_def catch_all_def respond_def
            coerce_all_def)
    qed
  qed
  with calls show ?thesis by blast
qed

text \<open>The signed sample event with a product title and no variant id.\<close>

theorem no_variant_no_order_witness:
  "event_variant_id (charge_event [field ''product_title'' ''Shades'']) = None
 \<and> filter is_order_call
      (snd (handler_order sample_world (signed (charge_event [field ''product_title'' ''Shades''])))) = []
 \<and> status (fst (handler_order sample_world
      (signed (charge_event [field ''product_title'' ''Shades''])))) = 500"
proof -
  have none: "event_variant_id (req_body (signed (charge_event [field ''product_title'' ''Shades'']))) = None"
    by (simp add: event_variant_id_def charge_event_def field_def read_def first_match_def
        has_name_def)
  from no_variant_no_order [OF none, of sample_world
      "example_hmac ''sk'' (stringify_value (charge_event [field ''product_title'' ''Shades'']))"
      "verification ''success'' 500000"] none
  show ?thesis
    by (simp add: compute_hash_signed read_get_prop)
       (simp add: verification_def read_def)
qed

text \<open>
  Claim C8. In the order-creation handler, when the draft-order call fails, the
  completion call is not made. The order calls of a run are none, or the draft-order
  call alone, or the draft-order call followed by the completion call.
\<close>

theorem complete_only_after_create:
  "(create_failed (draft_create_result w) \<longrightarrow>
      (\<forall>i. DraftOrderComplete i \<notin> set (snd (handler_order w req))))
 \<and> (\<exists>e r v i. filter is_order_call (snd (handler_order w req)) = []
      \<or> filter is_order_call (snd (handler_order w req)) = [DraftOrderCreate e r v]
      \<or> filter is_order_call (snd (handler_order w req)) =
           [DraftOrderCreate e r v, DraftOrderComplete i])"
proof (cases "req_method req = ''POST''")
  case False
  then show ?thesis by (simp add: handler_order_def)
next
  case True
  then have eq: "snd (handler_order w req) = snd (order_try w req)"
    by (simp add: handler_order_def catch_all_parts)
  show ?thesis
  proof (cases rule: order_try_cases [of w req])
    case quiet
    with eq show ?thesis by simp
  next
    case (threw h e p)
    with eq show ?thesis by simp
  next
    case (unverified h p vr)
    with eq show ?thesis by simp
  next
    case (verified h p vr)
    note v = verified
    show ?thesis
    proof (cases rule: order_charge_cases [of w p])
      case (threw e)
      with eq v show ?thesis by simp
    next
      case (created e em x)
      with eq v show ?thesis by simp
    next
      case (completed em x i)
      with eq v show ?thesis by simp
    qed
  qed
qed

text \<open>The commerce backend answers the draft-order call with \<open>errors\<close>.\<close>

theorem complete_only_after_create_witness:
  "create_failed (Inr (JObj [(''errors'', JStr ''Invalid API key'')]))
 \<and> snd (handler_order
      (sample_world\<lparr>draft_create_result := Inr (JObj [(''errors'', JStr ''Invalid API key'')])\<rparr>)
      (signed (charge_event [field ''variant_id'' ''987''])))
   = [VerifyTransaction (JStr ''ref_1''),
      DraftOrderCreate (JStr ''buyer@example.com'') (JStr ''ref_1'') (JStr ''987'')]
 \<and> DraftOrderComplete (JStr ''gid://shopify/DraftOrder/1'') \<notin> set (snd (handler_order
      (sample_world\<lparr>draft_create_result := Inr (JObj [(''errors'', JStr ''Invalid API key'')])\<rparr>)
      (signed (charge_event [field ''variant_id'' ''987'']))))"
  using complete_only_after_create
    [of "sample_world\<lparr>draft_create_result := Inr (JObj [(''errors'', JStr ''Invalid API key'')])\<rparr>"
        "signed (charge_event [field ''variant_id'' ''987''])"]
  by (simp add: read_def)
     (simp add: handler_order_def order_try_def order_charge_def compute_hash_signed
        draft_order_id_def catch_all_def coerce_all_def)

section \<open>Email failures\<close>

text \<open>
  Claim C9, as the code has it. In the handlers with one email, whenever the email
  call is made and its response is not \<open>ok\<close>, the response is 500 with the message
  \<open>Failed to send email\<close>. In the two-email handler the outcome of the two sends
  changes neither the response nor the calls; the admin send is attempted exactly when
  the customer send is; and whenever they are attempted the response is 200.
\<close>

theorem email_failure_outcomes:
  "(ResendEmail r fs \<in> set (snd (handler_verified w req)) \<and> resend_result w = Inr False
      \<longrightarrow> fst (handler_verified w req) = respond 500 (err ''Failed to send email''))
 \<and> (ResendEmail r fs \<in> set (snd (handler_unsigned w req)) \<and> resend_result w = Inr False
      \<longrightarrow> fst (handler_unsigned w req) = respond 500 (err ''Failed to send email''))
 \<and> handler_dual (w\<lparr>admin_mail_result := a, customer_mail_result := c\<rparr>) req = handler_dual w req
 \<and> ((\<exists>r' fs'. SendMailAdmin r' fs' \<in> set (snd (handler_dual w req)))
    = (\<exists>to fs'. SendMailCustomer to fs' \<in> set (snd (handler_dual w req))))
 \<and> (SendMailAdmin r fs \<in> set (snd (handler_dual w req))
      \<longrightarrow> status (fst (handler_dual w req)) = 200)"
proof -
  have dual: "(\<exists>r' fs'. SendMailAdmin r' fs' \<in> set (snd (handler_dual w req)))
            = (\<exists>to fs'. SendMailCustomer to fs' \<in> set (snd (handler_dual w req)))"
    "SendMailAdmin r fs \<in> set (snd (handler_dual w req))
       \<longrightarrow> status (fst (handler_dual w req)) = 200"
    using dual_sends [of w req] by auto
  have "handler_dual (w\<lparr>admin_mail_result := a, customer_mail_result := c\<rparr>) req = handler_dual w req"
    by (simp add: handler_dual_def dual_try_mail)
  with dual email_failure_fails_verified [of r fs w req]
    email_failure_fails_unsigned [of r fs w req]
  show ?thesis by blast
qed

text \<open>The verified notification with an email API that answers non-2xx.\<close>

theorem email_failure_outcomes_witness:
  "ResendEmail (JStr ''ref_1'')
     [JStr ''buyer@example.com'', JStr ''Unknown Product'', JStr ''987'', JStr ''N/A'',
      JStr ''N/A'', JStr ''N/A'', JStr ''N/A'', JStr ''0'']
     \<in> set (snd (handler_verified (sample_world\<lparr>resend_result := Inr False\<rparr>)
                   (signed (charge_event [field ''variant_id'' ''987'']))))
 \<and> fst (handler_verified (sample_world\<lparr>resend_result := Inr False\<rparr>)
          (signed (charge_event [field ''variant_id'' ''987''])))
     = respond 500 (err ''Failed to send email'')"
proof -
  have sent: "snd (handler_verified (sample_world\<lparr>resend_result := Inr False\<rparr>)
                   (signed (charge_event [field ''variant_id'' ''987''])))
     = [VerifyTransaction (JStr ''ref_1''),
        ResendEmail (JStr ''ref_1'')
          [JStr ''buyer@example.com'', JStr ''Unknown Product'', JStr ''987'', JStr ''N/A'',
           JStr ''N/A'', JStr ''N/A'', JStr ''N/A'', JStr ''0'']]"
    by (simp add: handler_verified_def verified_try_def reverify_def notify_charge_def
        notify_fields_def field_or_default_def field_value_def or_else_def field_def
        compute_hash_signed catch_all_def throw_io_def coerce_all_def)
  with email_failure_outcomes
    [of "JStr ''ref_1''"
        "[JStr ''buyer@example.com'', JStr ''Unknown Product'', JStr ''987'', JStr ''N/A'',
          JStr ''N/A'', JStr ''N/A'', JStr ''N/A'', JStr ''0'']"
        "sample_world\<lparr>resend_result := Inr False\<rparr>"
        "signed (charge_event [field ''variant_id'' ''987''])"]
  show ?thesis by simp
qed

text \<open>
  Claim C9 as stated fails in the two-email handler: with the admin send rejected, both
  sends are attempted and the response is 200, not 500.
\<close>

theorem dual_email_failure_is_200:
  "handler_dual (sample_world\<lparr>admin_mail_result := Inl (Rejected ''Invalid login'')\<rparr>)
     (signed (charge_event [field ''variant_id'' ''987'']))
   = (respond 200 (JObj
        [(''success'', JBool True), (''reference'', JStr ''ref_1''), (''verified'', JBool True),
         (''message'', JStr ''Payment verified, admin notification and customer order summary sent'')]),
      [VerifyTransaction (JStr ''ref_1''),
       SendMailAdmin (JStr ''ref_1'')
         [JStr ''buyer@example.com'', JStr ''Unknown Product'', JStr ''987'', JStr ''N/A'',
          JStr ''N/A'', JStr ''N/A'', JStr ''N/A'', JStr ''0''],
       SendMailCustomer (JStr ''buyer@example.com'')
         [JStr ''Unknown Product'', JStr ''987'', JStr ''N/A'', JStr ''N/A'', JStr ''N/A'',
          JStr ''N/A'', JStr ''0'']])"
  by (simp add: handler_dual_def dual_try_def reverify_def dual_charge_def
      dual_fields_def field_or_default_def field_value_def or_else_def field_def
      compute_hash_signed catch_all_def return_io_def coerce_all_def)

section \<open>Totality\<close>



end
